theory Spec2Isabelle
  imports Main "HOL-Library.Word"
begin

section \<open>Data model\<close>

text \<open>
  A \<^verbatim>\<open>Uint8Array\<close> is a list of bytes, a TypeScript \<^verbatim>\<open>bigint\<close> an unbounded
  integer, a contract address the hex string the CLI reads and prints.
\<close>

type_synonym bytes = "8 word list"

type_synonym ContractAddress = string

text \<open>
  Failures are values. The source declares no error class of its own: every failure is
  raised by a collaborator (provider, wallet, deployment helper) or by the JavaScript
  runtime (\<open>TypeError\<close> on a property read of \<^verbatim>\<open>null\<close>) or by rxjs (\<open>EmptyError\<close>
  when a stream ends before \<^verbatim>\<open>firstValueFrom\<close> has seen a value). \<open>Thrown\<close> stands for
  a thrown value that is not an instance of \<^verbatim>\<open>Error\<close>, which \<^verbatim>\<open>run\<close> treats
  differently.
\<close>

datatype error =
    NotFound | DecodeError | StoreUnavailable | DeploymentError | CallRejected
  | ProofFailed | InsufficientFunds | SubmissionRejected | TypeError | EmptyError
  | Thrown string

definition instanceof_Error :: "error \<Rightarrow> bool" where
  "instanceof_Error e = (case e of Thrown _ \<Rightarrow> False | _ \<Rightarrow> True)"

text \<open>
  The state of a promise at the end of the input observed so far: settled with a value,
  settled with a failure, or still pending (an \<^verbatim>\<open>await\<close> that has not resumed).
\<close>

datatype 'a promise = Resolved 'a | Rejected error | Pending

text \<open>
  The ledger of the voting contract as the CLI reads it (\<^verbatim>\<open>displayLedgerState\<close>), the
  private state (\<^verbatim>\<open>witnesses.ts\<close>) and the derived state (\<^verbatim>\<open>common-types\<close>).
\<close>

record Ledger =
  authorizedCommitments :: "bytes list"
  authorizedNullifiers :: "bytes list"
  restrictedCounter1 :: int
  restrictedCounter2 :: int
  restrictedCounter3 :: int

record BBoardPrivateState =
  secretKey :: bytes

text \<open>
  The fields of the derived state carry the names of the ledger's counters in the
  source; they are suffixed here, since a record field is a constant of the theory.
\<close>

record BBoardDerivedState =
  restrictedCounter1_derived :: int
  restrictedCounter2_derived :: int
  restrictedCounter3_derived :: int

definition createBBoardPrivateState :: "bytes \<Rightarrow> BBoardPrivateState" where
  "createBBoardPrivateState sk = \<lparr>secretKey = sk\<rparr>"

record ContractState =
  data :: bytes

text \<open>
  A log line is its level (\<open>Console\<close> for \<^verbatim>\<open>console.log\<close>) and its template: the
  literal pieces and the interpolated values, in order. \<open>Quoted\<close> is an interpolated
  value that the template puts between single quotes.
\<close>

datatype interp =
    Lit string | Num int | Hex bytes | Items "bytes list" | Message error | Stack error
  | Quoted interp

datatype log_entry =
    Info "interp list" | Err "interp list" | Debug "interp list" | Trace "interp list"
  | Console "interp list"

section \<open>Funding gate\<close>

text \<open>
  The wallet state as \<^verbatim>\<open>waitForFunds\<close> reads it. The field \<^verbatim>\<open>total\<close> of the sync
  progress is \<open>total_blocks\<close> here (\<open>total\<close> is a constant of HOL). The operators of
  rxjs that \<^verbatim>\<open>waitForFunds\<close> composes are read on the observed part of the stream, as
  list functions: \<^verbatim>\<open>filter\<close> and \<^verbatim>\<open>map\<close> as on lists, \<^verbatim>\<open>throttleTime\<close> and
  \<^verbatim>\<open>firstValueFrom\<close> as defined below, from their behaviour in rxjs.
\<close>

record SyncProgress =
  synced :: int
  total_blocks :: int

record WalletState =
  syncProgress :: "SyncProgress option"
  balances :: "string \<rightharpoonup> int"
  address :: string

text \<open>
  \<^verbatim>\<open>wallet.state()\<close> as a subscriber observes it: the wallet states received so far,
  and how the stream stands after them (still open, completed, or failed). Each state
  comes with its arrival time in milliseconds and a flag that is read in one case only:
  when the state arrives in the very millisecond in which a throttle window ends, the
  flag says whether the window's timer ran before the state was delivered.
\<close>

datatype stream_end = Open | Completed | Failed error

record Wallet =
  wallet_state :: "(nat \<times> bool \<times> WalletState) list"
  wallet_state_end :: stream_end

definition values_of :: "(nat \<times> bool \<times> 'a) list \<Rightarrow> 'a list" where
  "values_of xs = map (\<lambda>(t, timer_ran, x). x) xs"

text \<open>
  \<^verbatim>\<open>Rx.throttleTime(d)\<close> (leading edge): a value passes when no window is open and
  opens a window of \<open>d\<close> milliseconds; values arriving inside the window are dropped.
  The window is closed by a timer: a value that arrives exactly \<open>d\<close> milliseconds after
  the window opened passes only if that timer has already run.
\<close>

fun throttleTime :: "nat \<Rightarrow> nat option \<Rightarrow> (nat \<times> bool \<times> 'a) list \<Rightarrow> 'a list" where
  "throttleTime d opened [] = []"
| "throttleTime d opened ((t, timer_ran, x) # xs) =
     (case opened of
        None \<Rightarrow> x # throttleTime d (Some t) xs
      | Some t0 \<Rightarrow>
          if t0 + d < t \<or> (t0 + d = t \<and> timer_ran) then x # throttleTime d (Some t) xs
          else throttleTime d opened xs)"

text \<open>
  The first filter of \<^verbatim>\<open>waitForFunds\<close>: progress only if the wallet is close enough.
  \<open>filter_synced\<close> is \<^verbatim>\<open>state.syncProgress?.synced ?? 0n\<close> and \<open>filter_total\<close> is
  \<^verbatim>\<open>state.syncProgress?.total ?? 1_000n\<close>.
\<close>

definition filter_synced :: "WalletState \<Rightarrow> int" where
  "filter_synced s = (case syncProgress s of None \<Rightarrow> 0 | Some p \<Rightarrow> synced p)"

definition filter_total :: "WalletState \<Rightarrow> int" where
  "filter_total s = (case syncProgress s of None \<Rightarrow> 1000 | Some p \<Rightarrow> total_blocks p)"

definition sync_filter :: "WalletState \<Rightarrow> bool" where
  "sync_filter s =
     (let synced' = filter_synced s;
          total' = filter_total s
      in total' - synced' < 100)"

text \<open>\<^verbatim>\<open>s.balances[nativeToken()] ?? 0n\<close>, the token type taken as a parameter.\<close>

definition native_balance :: "string \<Rightarrow> WalletState \<Rightarrow> int" where
  "native_balance nativeToken s = (case balances s nativeToken of None \<Rightarrow> 0 | Some b \<Rightarrow> b)"

text \<open>
  \<^verbatim>\<open>Rx.firstValueFrom\<close>: the promise resolves with the first value of the stream; it
  is rejected with the stream's failure when the stream fails before any value, and
  with \<open>EmptyError\<close> when the stream completes before any value; otherwise it is pending.
\<close>

definition firstValueFrom :: "'a list \<Rightarrow> stream_end \<Rightarrow> 'a promise" where
  "firstValueFrom xs ending =
     (case xs of
        x # _ \<Rightarrow> Resolved x
      | [] \<Rightarrow> (case ending of
                 Open \<Rightarrow> Pending
               | Completed \<Rightarrow> Rejected EmptyError
               | Failed e \<Rightarrow> Rejected e))"

text \<open>The \<^verbatim>\<open>tap\<close> of \<^verbatim>\<open>waitForFunds\<close>: the line it logs for a wallet state.\<close>

definition scanned_message :: "WalletState \<Rightarrow> log_entry" where
  "scanned_message s =
     (let scanned = (case syncProgress s of None \<Rightarrow> 0 | Some p \<Rightarrow> synced p);
          total' = (case syncProgress s of None \<Rightarrow> Lit ''unknown number''
                    | Some p \<Rightarrow> Num (total_blocks p))
      in Info [Lit ''Wallet scanned '', Num scanned, Lit '' blocks out of '', total'])"

text \<open>
  \<^verbatim>\<open>waitForFunds\<close>: the operators pass the stream's completion and failure on, so
  the promise settles on the filtered states and on how the wallet's stream ends.
\<close>

definition waitForFunds :: "string \<Rightarrow> Wallet \<Rightarrow> int promise" where
  "waitForFunds nativeToken wallet =
     firstValueFrom
       (filter (\<lambda>balance. balance > 0)
          (map (native_balance nativeToken)
             (filter sync_filter
                (throttleTime 10000 None (wallet_state wallet)))))
       (wallet_state_end wallet)"

text \<open>
  The pipeline is lazy and \<^verbatim>\<open>firstValueFrom\<close> unsubscribes at its first value: the
  \<^verbatim>\<open>tap\<close> runs for the throttled states up to and including the first one that passes
  both filters.
\<close>

fun tapped :: "('a \<Rightarrow> bool) \<Rightarrow> 'a list \<Rightarrow> 'a list" where
  "tapped ok [] = []"
| "tapped ok (x # xs) = (if ok x then [x] else x # tapped ok xs)"

definition waitForFunds_log :: "string \<Rightarrow> Wallet \<Rightarrow> log_entry list" where
  "waitForFunds_log nativeToken wallet =
     map scanned_message
       (tapped (\<lambda>s. sync_filter s \<and> native_balance nativeToken s > 0)
          (throttleTime 10000 None (wallet_state wallet)))"

text \<open>
  \<^verbatim>\<open>buildWalletAndWaitForFunds\<close>: \<open>buildFromSeed\<close> is the wallet builder (a
  collaborator, which may fail). The result is the promise of the wallet and the lines
  logged.
\<close>

definition buildWalletAndWaitForFunds ::
  "(string \<Rightarrow> error + Wallet) \<Rightarrow> string \<Rightarrow> string \<Rightarrow> Wallet promise \<times> log_entry list" where
  "buildWalletAndWaitForFunds buildFromSeed nativeToken seed =
     (case buildFromSeed seed of
        Inl e \<Rightarrow> (Rejected e, [])
      | Inr wallet \<Rightarrow>
          (case firstValueFrom (values_of (wallet_state wallet)) (wallet_state_end wallet) of
             Pending \<Rightarrow> (Pending, [])
           | Rejected e \<Rightarrow> (Rejected e, [])
           | Resolved state0 \<Rightarrow>
               (let lg = [Info [Lit ''Your wallet seed is: '', Lit seed],
                          Info [Lit ''Your wallet address is: '', Lit (address state0)]];
                    lg' = lg @ [Info [Lit ''Your wallet balance is: 0''],
                                Info [Lit ''Waiting to receive tokens...'']]
                             @ waitForFunds_log nativeToken wallet;
                    waited = (case waitForFunds nativeToken wallet of
                                Pending \<Rightarrow> (Pending, lg')
                              | Rejected e \<Rightarrow> (Rejected e, lg')
                              | Resolved b \<Rightarrow>
                                  (Resolved wallet,
                                   lg' @ [Info [Lit ''Your wallet balance is: '', Num b]]))
                in case balances state0 nativeToken of
                     None \<Rightarrow> waited
                   | Some balance \<Rightarrow>
                       if balance = 0 then waited
                       else (Resolved wallet,
                             lg @ [Info [Lit ''Your wallet balance is: '', Num balance]]))))"

section \<open>Providers and collaborators\<close>

text \<open>
  The state the program runs against, passed explicitly. \<open>privateStateProvider w key\<close>
  is what \<^verbatim>\<open>providers.privateStateProvider.get(key)\<close> settles with in the world \<open>w\<close>:
  a failure, \<^verbatim>\<open>null\<close> (no record) or the record. \<open>publicDataProvider w address\<close> is
  what \<^verbatim>\<open>queryContractState(address)\<close> settles with. \<open>random_source\<close> lists the bytes
  \<^verbatim>\<open>crypto.getRandomValues\<close> hands out and \<open>random_drawn\<close> counts those drawn so far;
  \<open>logger\<close> holds the lines logged.
\<close>

record world =
  privateStateProvider :: "string \<Rightarrow> error + BBoardPrivateState option"
  publicDataProvider :: "ContractAddress \<Rightarrow> error + ContractState option"
  random_source :: "nat \<Rightarrow> 8 word"
  random_drawn :: nat
  logger :: "log_entry list"

definition log_line :: "log_entry \<Rightarrow> world \<Rightarrow> world" where
  "log_line l w = w\<lparr>logger := logger w @ [l]\<rparr>"

record DeployOptions =
  privateStateKey :: string
  initialPrivateState :: BBoardPrivateState

record FindOptions = DeployOptions +
  contractAddress :: ContractAddress

text \<open>\<open>deployed_contractAddress\<close> is \<^verbatim>\<open>deployTxData.public.contractAddress\<close>.\<close>

record DeployedBBoardContract =
  deployed_contractAddress :: ContractAddress

datatype circuit = Add_authority bytes | Increment1 | Increment2 | Increment3

text \<open>
  The collaborators whose code is outside the repository, taken as parameters: the
  compiled contract's \<^verbatim>\<open>ledger\<close> decoder (which may fail on a layout it does not
  know) and pure circuits, the deployment helpers \<^verbatim>\<open>deployContract\<close> and
  \<^verbatim>\<open>findDeployedContract\<close> of midnight-js (they read and write the world and may
  fail), and \<^verbatim>\<open>deployedContract.callTx\<close> (\<open>None\<close>: the call went through).
\<close>

record collab =
  ledger :: "bytes \<Rightarrow> error + Ledger"
  public_key :: "bytes \<Rightarrow> bytes"
  nullifier :: "bytes \<Rightarrow> bytes"
  deployContract :: "DeployOptions \<Rightarrow> world \<Rightarrow> (error + DeployedBBoardContract) \<times> world"
  findDeployedContract :: "FindOptions \<Rightarrow> world \<Rightarrow> (error + DeployedBBoardContract) \<times> world"
  callTx :: "circuit \<Rightarrow> DeployedBBoardContract \<Rightarrow> world \<Rightarrow> error option \<times> world"

section \<open>The API: private state, deploy and join\<close>

text \<open>\<^verbatim>\<open>utils.randomBytes(length)\<close>: the next \<open>n\<close> bytes of the random source.\<close>

definition randomBytes :: "nat \<Rightarrow> world \<Rightarrow> bytes \<times> world" where
  "randomBytes n w =
     (map (random_source w) [random_drawn w ..< random_drawn w + n],
      w\<lparr>random_drawn := random_drawn w + n\<rparr>)"

text \<open>
  \<^verbatim>\<open>existingPrivateState ?? createBBoardPrivateState(utils.randomBytes(32))\<close>: the
  right operand is evaluated only when the store returned \<^verbatim>\<open>null\<close>. The function
  reads the store and never writes it.
\<close>

definition getPrivateState :: "world \<Rightarrow> (error + BBoardPrivateState) \<times> world" where
  "getPrivateState w =
     (case privateStateProvider w ''bboardPrivateState'' of
        Inl e \<Rightarrow> (Inl e, w)
      | Inr (Some existingPrivateState) \<Rightarrow> (Inr existingPrivateState, w)
      | Inr None \<Rightarrow>
          (case randomBytes 32 w of (bs, w') \<Rightarrow> (Inr (createBBoardPrivateState bs), w')))"

text \<open>
  A \<^verbatim>\<open>BBoardAPI\<close> object. Its constructor starts the read
  \<^verbatim>\<open>providers.privateStateProvider.get('bboardPrivateState')\<close> that feeds \<^verbatim>\<open>state$\<close>;
  \<open>privateStateRead\<close> is what that read settles with.
\<close>

record BBoardAPI =
  deployedContract :: DeployedBBoardContract
  deployedContractAddress :: ContractAddress
  privateStateRead :: "error + BBoardPrivateState option"

definition new_BBoardAPI :: "DeployedBBoardContract \<Rightarrow> world \<Rightarrow> BBoardAPI" where
  "new_BBoardAPI deployed w =
     \<lparr>deployedContract = deployed,
      deployedContractAddress = deployed_contractAddress deployed,
      privateStateRead = privateStateProvider w ''bboardPrivateState''\<rparr>"

definition deploy :: "collab \<Rightarrow> world \<Rightarrow> (error + BBoardAPI) \<times> world" where
  "deploy c w =
     (case getPrivateState (log_line (Info [Lit ''deployContract'']) w) of
        (Inl e, w1) \<Rightarrow> (Inl e, w1)
      | (Inr ps, w1) \<Rightarrow>
          (case deployContract c
                  \<lparr>privateStateKey = ''bboardPrivateState'', initialPrivateState = ps\<rparr> w1 of
             (Inl e, w2) \<Rightarrow> (Inl e, w2)
           | (Inr deployedBBoardContract, w2) \<Rightarrow>
               (let w3 = log_line (Trace [Lit ''contractDeployed'',
                            Lit (deployed_contractAddress deployedBBoardContract)]) w2
                in (Inr (new_BBoardAPI deployedBBoardContract w3), w3))))"

definition join :: "collab \<Rightarrow> ContractAddress \<Rightarrow> world \<Rightarrow> (error + BBoardAPI) \<times> world" where
  "join c address' w =
     (case getPrivateState (log_line (Info [Lit ''joinContract'', Lit address']) w) of
        (Inl e, w1) \<Rightarrow> (Inl e, w1)
      | (Inr ps, w1) \<Rightarrow>
          (case findDeployedContract c
                  \<lparr>privateStateKey = ''bboardPrivateState'', initialPrivateState = ps,
                   contractAddress = address'\<rparr> w1 of
             (Inl e, w2) \<Rightarrow> (Inl e, w2)
           | (Inr deployedBBoardContract, w2) \<Rightarrow>
               (let w3 = log_line (Trace [Lit ''contractJoined'',
                            Lit (deployed_contractAddress deployedBBoardContract)]) w2
                in (Inr (new_BBoardAPI deployedBBoardContract w3), w3))))"

definition add_authority :: "collab \<Rightarrow> BBoardAPI \<Rightarrow> bytes \<Rightarrow> world \<Rightarrow> error option \<times> world" where
  "add_authority c api pk w = callTx c (Add_authority pk) (deployedContract api) w"

definition increment1 :: "collab \<Rightarrow> BBoardAPI \<Rightarrow> world \<Rightarrow> error option \<times> world" where
  "increment1 c api w = callTx c Increment1 (deployedContract api) w"

definition increment2 :: "collab \<Rightarrow> BBoardAPI \<Rightarrow> world \<Rightarrow> error option \<times> world" where
  "increment2 c api w = callTx c Increment2 (deployedContract api) w"

definition increment3 :: "collab \<Rightarrow> BBoardAPI \<Rightarrow> world \<Rightarrow> error option \<times> world" where
  "increment3 c api w = callTx c Increment3 (deployedContract api) w"

text \<open>
  The projection of \<^verbatim>\<open>state$\<close>: it hashes the secret key twice and returns the three
  counters of the ledger. The pure circuits are taken at their declared type, from bytes
  to bytes; a circuit that threw would leave the projection without any derived state,
  not with another one.
\<close>

definition derivedState :: "collab \<Rightarrow> Ledger \<Rightarrow> BBoardPrivateState \<Rightarrow> BBoardDerivedState" where
  "derivedState c ledgerState privateState =
     (let hashedSecretKey = public_key c (secretKey privateState);
          nullifySecretKey = nullifier c (secretKey privateState)
      in \<lparr>restrictedCounter1_derived = restrictedCounter1 ledgerState,
          restrictedCounter2_derived = restrictedCounter2 ledgerState,
          restrictedCounter3_derived = restrictedCounter3 ledgerState\<rparr>)"

section \<open>Reading the ledger\<close>

text \<open>
  \<^verbatim>\<open>getBBoardLedgerState\<close> is the same in both CLIs; the decoder \<^verbatim>\<open>ledger\<close> of the
  contract at hand is its first argument.
\<close>

definition getBBoardLedgerState ::
  "(bytes \<Rightarrow> error + 'l) \<Rightarrow> world \<Rightarrow> ContractAddress \<Rightarrow> error + 'l option" where
  "getBBoardLedgerState ledger' providers address' =
     (case publicDataProvider providers address' of
        Inl e \<Rightarrow> Inl e
      | Inr None \<Rightarrow> Inr None
      | Inr (Some contractState) \<Rightarrow>
          (case ledger' (data contractState) of
             Inl e \<Rightarrow> Inl e
           | Inr l \<Rightarrow> Inr (Some l)))"

definition displayLedgerState ::
  "collab \<Rightarrow> DeployedBBoardContract \<Rightarrow> world \<Rightarrow> error option \<times> world" where
  "displayLedgerState c deployedBBoardContract w =
     (let address' = deployed_contractAddress deployedBBoardContract
      in case getBBoardLedgerState (ledger c) w address' of
           Inl e \<Rightarrow> (Some e, w)
         | Inr None \<Rightarrow>
             (None, log_line (Info [Lit ''There is no voting board contract deployed at '',
                                    Lit address']) w)
         | Inr (Some ledgerState) \<Rightarrow>
             (None,
              log_line (Info [Lit ''Current restrictedCounter3 is: '',
                              Num (restrictedCounter3 ledgerState)])
              (log_line (Info [Lit ''Current restrictedCounter2 is: '',
                               Num (restrictedCounter2 ledgerState)])
              (log_line (Info [Lit ''Current restrictedCounter1 is: '',
                               Num (restrictedCounter1 ledgerState)])
              (log_line (Info [Lit ''Current authorizedNullifiers is: '',
                               Quoted (Items (authorizedNullifiers ledgerState))])
              (log_line (Info [Lit ''Current authorizedCommitments is: '',
                               Quoted (Items (authorizedCommitments ledgerState))]) w))))))"

definition displayPrivateState :: "world \<Rightarrow> error option \<times> world" where
  "displayPrivateState w =
     (case privateStateProvider w ''bboardPrivateState'' of
        Inl e \<Rightarrow> (Some e, w)
      | Inr None \<Rightarrow>
          (None, log_line (Info [Lit ''There is no existing voting board private state'']) w)
      | Inr (Some privateState) \<Rightarrow>
          (None, log_line (Info [Lit ''Current secret key is: '',
                                 Hex (secretKey privateState)]) w))"

section \<open>The derived-state pipeline\<close>

text \<open>
  Modelled from the spec: \<^verbatim>\<open>combineLatest\<close>, \<^verbatim>\<open>map\<close>, \<^verbatim>\<open>from\<close> and the subscription
  of rxjs, a library outside the repository. Following the spec's section 4.4 and its
  design note on reactive stream composition, a subscription to \<^verbatim>\<open>state$\<close> holds the
  latest value of each source in a slot, recomputes on every update of either slot and
  emits only once both slots are filled. A failure of a source, of the decoder inside
  \<^verbatim>\<open>map\<close> or of the projection ends the subscription with an error notification;
  a closed subscription delivers nothing.

  The sources and the projection are the repository's (the constructor of
  \<^verbatim>\<open>BBoardAPI\<close>): contract states pushed by \<^verbatim>\<open>contractStateObservable\<close> and decoded by
  \<^verbatim>\<open>ledger\<close>, and the one read of the private state store, which the constructor casts
  to a private state although the store may return \<^verbatim>\<open>null\<close>; the projection then fails
  on \<^verbatim>\<open>privateState.secretKey\<close>.
\<close>

datatype source_event =
    ContractStateUpdate ContractState
  | PrivateStateRead "BBoardPrivateState option"
  | SourceError error

datatype 'a notification = Next 'a | ErrorNotification error

record Subscription =
  latestLedger :: "Ledger option"
  latestPrivate :: "BBoardPrivateState option option"
  closed :: bool

definition subscribe :: Subscription where
  "subscribe = \<lparr>latestLedger = None, latestPrivate = None, closed = False\<rparr>"

definition unsubscribe :: "Subscription \<Rightarrow> Subscription" where
  "unsubscribe sub = sub\<lparr>closed := True\<rparr>"

definition combineLatest ::
  "collab \<Rightarrow> Subscription \<Rightarrow> Subscription \<times> BBoardDerivedState notification list" where
  "combineLatest c sub =
     (case (latestLedger sub, latestPrivate sub) of
        (Some ledgerState, Some (Some privateState)) \<Rightarrow>
          (sub, [Next (derivedState c ledgerState privateState)])
      | (Some ledgerState, Some None) \<Rightarrow>
          (sub\<lparr>closed := True\<rparr>, [ErrorNotification TypeError])
      | _ \<Rightarrow> (sub, []))"

definition state_step ::
  "collab \<Rightarrow> Subscription \<Rightarrow> source_event
     \<Rightarrow> Subscription \<times> BBoardDerivedState notification list" where
  "state_step c sub ev =
     (if closed sub then (sub, [])
      else case ev of
        ContractStateUpdate contractState \<Rightarrow>
          (case ledger c (data contractState) of
             Inl e \<Rightarrow> (sub\<lparr>closed := True\<rparr>, [ErrorNotification e])
           | Inr ledgerState \<Rightarrow> combineLatest c (sub\<lparr>latestLedger := Some ledgerState\<rparr>))
      | PrivateStateRead p \<Rightarrow> combineLatest c (sub\<lparr>latestPrivate := Some p\<rparr>)
      | SourceError e \<Rightarrow> (sub\<lparr>closed := True\<rparr>, [ErrorNotification e]))"

text \<open>\<^verbatim>\<open>state$\<close> on a sequence of source events: the notifications delivered, in order.\<close>

fun state_run ::
  "collab \<Rightarrow> Subscription \<Rightarrow> source_event list
     \<Rightarrow> Subscription \<times> BBoardDerivedState notification list" where
  "state_run c sub [] = (sub, [])"
| "state_run c sub (ev # evs) =
     (case state_step c sub ev of
        (sub', out) \<Rightarrow>
          (case state_run c sub' evs of (sub'', out') \<Rightarrow> (sub'', out @ out')))"

text \<open>
  Vocabulary for statements about event sequences: a ledger snapshot arrives with a
  contract state the decoder accepts; the most recently known private state is the
  value of the last private-state event; an event is sound when it is no failure.
\<close>

definition snapshot_arrival :: "collab \<Rightarrow> source_event \<Rightarrow> bool" where
  "snapshot_arrival c ev =
     (case ev of
        ContractStateUpdate contractState \<Rightarrow>
          (case ledger c (data contractState) of Inl e \<Rightarrow> False | Inr l \<Rightarrow> True)
      | _ \<Rightarrow> False)"

definition private_arrival :: "source_event \<Rightarrow> bool" where
  "private_arrival ev = (case ev of PrivateStateRead (Some ps) \<Rightarrow> True | _ \<Rightarrow> False)"

fun latest_private :: "source_event list \<Rightarrow> BBoardPrivateState option" where
  "latest_private [] = None"
| "latest_private (ev # evs) =
     (case latest_private evs of
        Some ps \<Rightarrow> Some ps
      | None \<Rightarrow> (case ev of PrivateStateRead (Some ps) \<Rightarrow> Some ps | _ \<Rightarrow> None))"

definition sound_event :: "collab \<Rightarrow> source_event \<Rightarrow> bool" where
  "sound_event c ev = (snapshot_arrival c ev \<or> private_arrival ev)"

text \<open>The same source event with another private state in place of the one read.\<close>

definition replace_private :: "BBoardPrivateState \<Rightarrow> source_event \<Rightarrow> source_event" where
  "replace_private ps' ev =
     (case ev of PrivateStateRead (Some ps) \<Rightarrow> PrivateStateRead (Some ps') | _ \<Rightarrow> ev)"

section \<open>The interactive loops of the CLI\<close>

text \<open>
  What reaches the CLI while it runs, in order: the lines the user answers to
  \<^verbatim>\<open>rli.question\<close>, and the derived states \<^verbatim>\<open>state$\<close> emits. The list is the input
  observed so far; a loop that has consumed all of it is waiting at its prompt.
\<close>

datatype 'd input = Answer string | Emission 'd

text \<open>
  The state cell of \<^verbatim>\<open>mainLoop\<close>: \<open>currentState\<close>, whether the subscription to
  \<^verbatim>\<open>state$\<close> is active, and the states handed to \<^verbatim>\<open>stateObserver.next\<close> so far.
\<close>

record 'd session =
  currentState :: "'d option"
  subscribed :: bool
  observed :: "'d list"

definition no_session :: "'d session" where
  "no_session = \<lparr>currentState = None, subscribed = False, observed = []\<rparr>"

definition stateObserver_next :: "'d \<Rightarrow> 'd session \<Rightarrow> 'd session" where
  "stateObserver_next d s = s\<lparr>currentState := Some d, observed := observed s @ [d]\<rparr>"

text \<open>
  Modelled from the spec: the subscription object of rxjs. An emission reaches the
  observer only while the subscription is active; after \<^verbatim>\<open>unsubscribe\<close> nothing is
  delivered (spec, section 8, teardown).
\<close>

definition deliver :: "'d \<Rightarrow> 'd session \<Rightarrow> 'd session" where
  "deliver d s = (if subscribed s then stateObserver_next d s else s)"

text \<open>What becomes of the input that arrives after a loop has ended.\<close>

fun deliver_all :: "'d input list \<Rightarrow> 'd session \<Rightarrow> 'd session" where
  "deliver_all [] s = s"
| "deliver_all (Emission d # rest) s = deliver_all rest (deliver d s)"
| "deliver_all (Answer a # rest) s = deliver_all rest s"

text \<open>
  \<^verbatim>\<open>await rli.question(...)\<close>: emissions that arrive while the prompt waits are
  delivered; the next answer is returned with the input left.
\<close>

fun question :: "'d input list \<Rightarrow> 'd session \<Rightarrow> string option \<times> 'd input list \<times> 'd session" where
  "question [] s = (None, [], s)"
| "question (Emission d # rest) s = question rest (deliver d s)"
| "question (Answer a # rest) s = (Some a, rest, s)"

text \<open>
  \<^verbatim>\<open>deployOrJoin\<close>, the same in both CLIs up to the API it calls: \<open>deploy'\<close> and
  \<open>join'\<close> are \<^verbatim>\<open>BBoardAPI.deploy\<close> and \<^verbatim>\<open>BBoardAPI.join\<close>. The first three
  equations are the prompt of the \<^verbatim>\<open>while (true)\<close> loop, the \<open>if\<close> chain is its
  \<^verbatim>\<open>switch\<close>.
\<close>

fun deployOrJoin ::
  "(world \<Rightarrow> (error + BBoardAPI) \<times> world)
     \<Rightarrow> (ContractAddress \<Rightarrow> world \<Rightarrow> (error + BBoardAPI) \<times> world)
     \<Rightarrow> 'd input list \<Rightarrow> world \<Rightarrow> 'd session
     \<Rightarrow> BBoardAPI option promise \<times> 'd input list \<times> world \<times> 'd session" where
  "deployOrJoin deploy' join' [] w s = (Pending, [], w, s)"
| "deployOrJoin deploy' join' (Emission d # rest) w s =
     deployOrJoin deploy' join' rest w (deliver d s)"
| "deployOrJoin deploy' join' (Answer choice # rest) w s =
     (if choice = ''1'' then
        (case deploy' w of
           (Inl e, w') \<Rightarrow> (Rejected e, rest, w', s)
         | (Inr api, w') \<Rightarrow>
             (Resolved (Some api), rest,
              log_line (Info [Lit ''Deployed contract at address: '',
                              Lit (deployedContractAddress api)]) w', s))
      else if choice = ''2'' then
        (case question rest s of
           (None, rest', s') \<Rightarrow> (Pending, rest', w, s')
         | (Some address', rest', s') \<Rightarrow>
             (case join' address' w of
                (Inl e, w') \<Rightarrow> (Rejected e, rest', w', s')
              | (Inr api, w') \<Rightarrow>
                  (Resolved (Some api), rest',
                   log_line (Info [Lit ''Joined contract at address: '',
                                   Lit (deployedContractAddress api)]) w', s')))
      else if choice = ''3'' then
        (Resolved None, rest, log_line (Info [Lit ''Exiting...'']) w, s)
      else
        deployOrJoin deploy' join' rest
          (log_line (Err [Lit ''Invalid choice: '', Lit choice]) w) s)"

text \<open>
  The \<^verbatim>\<open>while (true)\<close> loop of \<^verbatim>\<open>mainLoop\<close> in \<^verbatim>\<open>examples/bboard/bboard-cli\<close>. A
  failure of an awaited call leaves the loop as a rejection. The \<^verbatim>\<open>switch\<close> has the
  cases '1' to '6' and the default, and no case that returns.
\<close>

fun mainLoop_while ::
  "collab \<Rightarrow> BBoardAPI \<Rightarrow> BBoardDerivedState input list \<Rightarrow> world \<Rightarrow> BBoardDerivedState session
     \<Rightarrow> unit promise \<times> BBoardDerivedState input list \<times> world \<times> BBoardDerivedState session" where
  "mainLoop_while c bboardApi [] w s = (Pending, [], w, s)"
| "mainLoop_while c bboardApi (Emission d # rest) w s =
     mainLoop_while c bboardApi rest w (deliver d s)"
| "mainLoop_while c bboardApi (Answer choice # rest) w s =
     (if choice = ''1'' then
        (case privateStateProvider w ''bboardPrivateState'' of
           Inl e \<Rightarrow> (Rejected e, rest, w, s)
         | Inr None \<Rightarrow> (Rejected TypeError, rest, w, s)
         | Inr (Some sk) \<Rightarrow>
             (let pk = public_key c (secretKey sk);
                  w1 = log_line (Console [Hex (secretKey sk), Hex pk]) w
              in case add_authority c bboardApi pk w1 of
                   (Some e, w') \<Rightarrow> (Rejected e, rest, w', s)
                 | (None, w') \<Rightarrow> mainLoop_while c bboardApi rest w' s))
      else if choice = ''2'' then
        (case increment1 c bboardApi w of
           (Some e, w') \<Rightarrow> (Rejected e, rest, w', s)
         | (None, w') \<Rightarrow> mainLoop_while c bboardApi rest w' s)
      else if choice = ''3'' then
        (case increment2 c bboardApi w of
           (Some e, w') \<Rightarrow> (Rejected e, rest, w', s)
         | (None, w') \<Rightarrow> mainLoop_while c bboardApi rest w' s)
      else if choice = ''4'' then
        (case increment3 c bboardApi w of
           (Some e, w') \<Rightarrow> (Rejected e, rest, w', s)
         | (None, w') \<Rightarrow> mainLoop_while c bboardApi rest w' s)
      else if choice = ''5'' then
        (case displayLedgerState c (deployedContract bboardApi) w of
           (Some e, w') \<Rightarrow> (Rejected e, rest, w', s)
         | (None, w') \<Rightarrow> mainLoop_while c bboardApi rest w' s)
      else if choice = ''6'' then
        (case displayPrivateState w of
           (Some e, w') \<Rightarrow> (Rejected e, rest, w', s)
         | (None, w') \<Rightarrow> mainLoop_while c bboardApi rest w' s)
      else
        mainLoop_while c bboardApi rest
          (log_line (Err [Lit ''Invalid choice: '', Lit choice]) w) s)"

text \<open>
  \<^verbatim>\<open>mainLoop\<close>: no API object, return; otherwise subscribe, loop, and unsubscribe in
  the \<^verbatim>\<open>finally\<close> block, which runs when the loop has ended (not while it waits).
\<close>

definition mainLoop ::
  "collab \<Rightarrow> BBoardDerivedState input list \<Rightarrow> world
     \<Rightarrow> unit promise \<times> BBoardDerivedState input list \<times> world \<times> BBoardDerivedState session" where
  "mainLoop c inputs w =
     (case deployOrJoin (deploy c) (join c) inputs w no_session of
        (Pending, rest, w', s) \<Rightarrow> (Pending, rest, w', s)
      | (Rejected e, rest, w', s) \<Rightarrow> (Rejected e, rest, w', s)
      | (Resolved None, rest, w', s) \<Rightarrow> (Resolved (), rest, w', s)
      | (Resolved (Some bboardApi), rest, w', s) \<Rightarrow>
          (case mainLoop_while c bboardApi rest w' (s\<lparr>subscribed := True\<rparr>) of
             (Pending, rest', w'', s') \<Rightarrow> (Pending, rest', w'', s')
           | (Rejected e, rest', w'', s') \<Rightarrow> (Rejected e, rest', w'', s'\<lparr>subscribed := False\<rparr>)
           | (Resolved u, rest', w'', s') \<Rightarrow> (Resolved u, rest', w'', s'\<lparr>subscribed := False\<rparr>)))"

section \<open>The bulletin board CLI (\<^verbatim>\<open>examples/extra\<close>)\<close>

text \<open>
  The second CLI drives the bulletin board contract (\<^verbatim>\<open>bboard.compact\<close>). Its API
  module is not part of the sources (only a commented-out variant is), so the API's
  operations are parameters: \<^verbatim>\<open>deploy\<close>, \<^verbatim>\<open>join\<close>, \<^verbatim>\<open>post\<close> and \<^verbatim>\<open>takeDown\<close>, each of
  which may fail, and the decoder of the contract's ledger.
\<close>

datatype STATE = vacant | occupied

record Ledger_extra =
  state :: STATE
  message :: "string option"
  instance_counter :: int
  poster :: bytes

record BBoardDerivedState_extra =
  state_derived :: STATE
  message_derived :: "string option"
  instance_derived :: int
  isOwner :: bool

record collab_extra =
  ledger_extra :: "bytes \<Rightarrow> error + Ledger_extra"
  deploy_extra :: "world \<Rightarrow> (error + BBoardAPI) \<times> world"
  join_extra :: "ContractAddress \<Rightarrow> world \<Rightarrow> (error + BBoardAPI) \<times> world"
  post :: "BBoardAPI \<Rightarrow> string \<Rightarrow> world \<Rightarrow> error option \<times> world"
  takeDown :: "BBoardAPI \<Rightarrow> world \<Rightarrow> error option \<times> world"

definition displayLedgerState_extra ::
  "collab_extra \<Rightarrow> DeployedBBoardContract \<Rightarrow> world \<Rightarrow> error option \<times> world" where
  "displayLedgerState_extra x deployedBBoardContract w =
     (let address' = deployed_contractAddress deployedBBoardContract
      in case getBBoardLedgerState (ledger_extra x) w address' of
           Inl e \<Rightarrow> (Some e, w)
         | Inr None \<Rightarrow>
             (None, log_line (Info [Lit ''There is no bulletin board contract deployed at '',
                                    Lit address']) w)
         | Inr (Some ledgerState) \<Rightarrow>
             (let boardState = (if state ledgerState = occupied then ''occupied'' else ''vacant'');
                  latestMessage = (case message ledgerState of None \<Rightarrow> ''none'' | Some m \<Rightarrow> m)
              in (None,
                  log_line (Info [Lit ''Current poster is: '',
                                  Quoted (Hex (poster ledgerState))])
                  (log_line (Info [Lit ''Current instance is: '', Num (instance_counter ledgerState)])
                  (log_line (Info [Lit ''Current message is: '', Quoted (Lit latestMessage)])
                  (log_line (Info [Lit ''Current state is: '', Quoted (Lit boardState)]) w))))))"

definition displayDerivedState ::
  "BBoardDerivedState_extra option \<Rightarrow> world \<Rightarrow> world" where
  "displayDerivedState ledgerState w =
     (case ledgerState of
        None \<Rightarrow> log_line (Info [Lit ''No bulletin board state currently available'']) w
      | Some d \<Rightarrow>
          (let boardState = (if state_derived d = occupied then ''occupied'' else ''vacant'');
               latestMessage = (if state_derived d = occupied
                                then (case message_derived d of None \<Rightarrow> ''undefined'' | Some m \<Rightarrow> m)
                                else ''none'')
           in log_line (Info [Lit ''Current poster is: '',
                              Quoted (Lit (if isOwner d then ''you'' else ''not you''))])
              (log_line (Info [Lit ''Current instance is: '', Num (instance_derived d)])
              (log_line (Info [Lit ''Current message is: '', Quoted (Lit latestMessage)])
              (log_line (Info [Lit ''Current state is: '', Quoted (Lit boardState)]) w)))))"

lemma question_shorter: "length (fst (snd (question inputs s))) \<le> length inputs"
  by (induction inputs s rule: question.induct) auto

text \<open>
  The \<^verbatim>\<open>while (true)\<close> loop of \<^verbatim>\<open>mainLoop\<close> in \<^verbatim>\<open>examples/extra/bboard-cli\<close>: case
  '6' logs and returns.
\<close>

function mainLoop_extra_while ::
  "collab_extra \<Rightarrow> BBoardAPI \<Rightarrow> BBoardDerivedState_extra input list \<Rightarrow> world
     \<Rightarrow> BBoardDerivedState_extra session
     \<Rightarrow> unit promise \<times> BBoardDerivedState_extra input list \<times> world
        \<times> BBoardDerivedState_extra session" where
  "mainLoop_extra_while x bboardApi [] w s = (Pending, [], w, s)"
| "mainLoop_extra_while x bboardApi (Emission d # rest) w s =
     mainLoop_extra_while x bboardApi rest w (deliver d s)"
| "mainLoop_extra_while x bboardApi (Answer choice # rest) w s =
     (if choice = ''1'' then
        (case question rest s of
           (None, rest', s') \<Rightarrow> (Pending, rest', w, s')
         | (Some message', rest', s') \<Rightarrow>
             (case post x bboardApi message' w of
                (Some e, w') \<Rightarrow> (Rejected e, rest', w', s')
              | (None, w') \<Rightarrow> mainLoop_extra_while x bboardApi rest' w' s'))
      else if choice = ''2'' then
        (case takeDown x bboardApi w of
           (Some e, w') \<Rightarrow> (Rejected e, rest, w', s)
         | (None, w') \<Rightarrow> mainLoop_extra_while x bboardApi rest w' s)
      else if choice = ''3'' then
        (case displayLedgerState_extra x (deployedContract bboardApi) w of
           (Some e, w') \<Rightarrow> (Rejected e, rest, w', s)
         | (None, w') \<Rightarrow> mainLoop_extra_while x bboardApi rest w' s)
      else if choice = ''4'' then
        (case displayPrivateState w of
           (Some e, w') \<Rightarrow> (Rejected e, rest, w', s)
         | (None, w') \<Rightarrow> mainLoop_extra_while x bboardApi rest w' s)
      else if choice = ''5'' then
        mainLoop_extra_while x bboardApi rest (displayDerivedState (currentState s) w) s
      else if choice = ''6'' then
        (Resolved (), rest, log_line (Info [Lit ''Exiting...'']) w, s)
      else
        mainLoop_extra_while x bboardApi rest
          (log_line (Err [Lit ''Invalid choice: '', Lit choice]) w) s)"
  by pat_completeness auto
termination
  apply (relation "measure (\<lambda>(x, bboardApi, inputs, w, s). length inputs)")
   apply simp_all
  apply (metis question_shorter fst_conv snd_conv le_imp_less_Suc)
  done

definition mainLoop_extra ::
  "collab_extra \<Rightarrow> BBoardDerivedState_extra input list \<Rightarrow> world
     \<Rightarrow> unit promise \<times> BBoardDerivedState_extra input list \<times> world
        \<times> BBoardDerivedState_extra session" where
  "mainLoop_extra x inputs w =
     (case deployOrJoin (deploy_extra x) (join_extra x) inputs w no_session of
        (Pending, rest, w', s) \<Rightarrow> (Pending, rest, w', s)
      | (Rejected e, rest, w', s) \<Rightarrow> (Rejected e, rest, w', s)
      | (Resolved None, rest, w', s) \<Rightarrow> (Resolved (), rest, w', s)
      | (Resolved (Some bboardApi), rest, w', s) \<Rightarrow>
          (case mainLoop_extra_while x bboardApi rest w' (s\<lparr>subscribed := True\<rparr>) of
             (Pending, rest', w'', s') \<Rightarrow> (Pending, rest', w'', s')
           | (Rejected e, rest', w'', s') \<Rightarrow> (Rejected e, rest', w'', s'\<lparr>subscribed := False\<rparr>)
           | (Resolved u, rest', w'', s') \<Rightarrow> (Resolved u, rest', w'', s'\<lparr>subscribed := False\<rparr>)))"

section \<open>The wallet menu and the top-level \<^verbatim>\<open>run\<close>\<close>

text \<open>\<^verbatim>\<open>toHex\<close> of midnight-js: two lower-case hexadecimal digits per byte.\<close>

definition hex_digit :: "nat \<Rightarrow> char" where
  "hex_digit n = ''0123456789abcdef'' ! n"

definition toHex :: "bytes \<Rightarrow> string" where
  "toHex bs = concat (map (\<lambda>b. [hex_digit (unat b div 16), hex_digit (unat b mod 16)]) bs)"

definition GENESIS_MINT_WALLET_SEED :: string where
  "GENESIS_MINT_WALLET_SEED =
     ''0000000000000000000000000000000000000000000000000000000000000042''"

text \<open>\<^verbatim>\<open>buildWalletAndWaitForFunds\<close> with its log lines written to the world's logger.\<close>

definition build_and_log ::
  "(string \<Rightarrow> error + Wallet) \<Rightarrow> string \<Rightarrow> string \<Rightarrow> world \<Rightarrow> Wallet option promise \<times> world" where
  "build_and_log buildFromSeed nativeToken seed w =
     (case buildWalletAndWaitForFunds buildFromSeed nativeToken seed of
        (p, ls) \<Rightarrow>
          (case p of Resolved wallet \<Rightarrow> Resolved (Some wallet)
                   | Rejected e \<Rightarrow> Rejected e
                   | Pending \<Rightarrow> Pending,
           w\<lparr>logger := logger w @ ls\<rparr>))"

text \<open>
  The menu loop of \<^verbatim>\<open>buildWallet\<close>: '1' is \<^verbatim>\<open>buildFreshWallet\<close> (a seed of 32 random
  bytes), '2' is \<^verbatim>\<open>buildWalletFromSeed\<close> (the seed is asked for), '3' exits with
  \<^verbatim>\<open>null\<close>.
\<close>

fun buildWallet_loop ::
  "(string \<Rightarrow> error + Wallet) \<Rightarrow> string \<Rightarrow> 'd input list \<Rightarrow> world \<Rightarrow> 'd session
     \<Rightarrow> Wallet option promise \<times> 'd input list \<times> world \<times> 'd session" where
  "buildWallet_loop buildFromSeed nativeToken [] w s = (Pending, [], w, s)"
| "buildWallet_loop buildFromSeed nativeToken (Emission d # rest) w s =
     buildWallet_loop buildFromSeed nativeToken rest w (deliver d s)"
| "buildWallet_loop buildFromSeed nativeToken (Answer choice # rest) w s =
     (if choice = ''1'' then
        (case randomBytes 32 w of
           (bs, w1) \<Rightarrow>
             (case build_and_log buildFromSeed nativeToken (toHex bs) w1 of
                (p, w2) \<Rightarrow> (p, rest, w2, s)))
      else if choice = ''2'' then
        (case question rest s of
           (None, rest', s') \<Rightarrow> (Pending, rest', w, s')
         | (Some seed, rest', s') \<Rightarrow>
             (case build_and_log buildFromSeed nativeToken seed w of
                (p, w2) \<Rightarrow> (p, rest', w2, s')))
      else if choice = ''3'' then
        (Resolved None, rest, log_line (Info [Lit ''Exiting...'']) w, s)
      else
        buildWallet_loop buildFromSeed nativeToken rest
          (log_line (Err [Lit ''Invalid choice: '', Lit choice]) w) s)"

definition buildWallet ::
  "(string \<Rightarrow> error + Wallet) \<Rightarrow> string \<Rightarrow> bool \<Rightarrow> 'd input list \<Rightarrow> world \<Rightarrow> 'd session
     \<Rightarrow> Wallet option promise \<times> 'd input list \<times> world \<times> 'd session" where
  "buildWallet buildFromSeed nativeToken standalone inputs w s =
     (if standalone then
        (case build_and_log buildFromSeed nativeToken GENESIS_MINT_WALLET_SEED w of
           (p, w') \<Rightarrow> (p, inputs, w', s))
      else buildWallet_loop buildFromSeed nativeToken inputs w s)"

text \<open>
  The resources \<^verbatim>\<open>run\<close> holds, and what happened to them, in order: a resource
  acquired; its release called, with the failure the call threw, if any; and, next to
  the releases, \<^verbatim>\<open>rli.removeAllListeners()\<close> and \<^verbatim>\<open>process.exit\<close>.
\<close>

datatype resource = InputInterface | Environment | WalletHandle

datatype lifecycle =
    Acquire resource
  | Release resource "error option"
  | RemoveAllListeners "error option"
  | ProcessExit nat

text \<open>
  How the resources answer: \<open>up\<close> and \<open>mapContainerPort\<close> for the Docker environment
  handed to \<^verbatim>\<open>run\<close> (\<open>None\<close>: no failure), and the four calls of the shutdown.
\<close>

record DockerComposeEnvironment =
  up :: "error option"
  mapContainerPort :: "error option"

record releases =
  rli_close :: "error option"
  rli_removeAllListeners :: "error option"
  wallet_close :: "error option"
  env_down :: "error option"

text \<open>
  The \<^verbatim>\<open>finally\<close> block of \<^verbatim>\<open>run\<close>: three nested \<^verbatim>\<open>try\<close> blocks with empty
  \<^verbatim>\<open>catch\<close> clauses. \<open>env\<close> says whether an environment was started.
\<close>

definition teardown ::
  "releases \<Rightarrow> Wallet option \<Rightarrow> bool \<Rightarrow> world \<Rightarrow> lifecycle list \<times> world" where
  "teardown rel wallet env w =
     (let first = (case rli_close rel of
                     Some e \<Rightarrow> [Release InputInterface (Some e)]
                   | None \<Rightarrow> [Release InputInterface None,
                              RemoveAllListeners (rli_removeAllListeners rel)]);
          second = (case wallet of
                      None \<Rightarrow> []
                    | Some wallet' \<Rightarrow> [Release WalletHandle (wallet_close rel)]);
          third = (if env then
                     (case env_down rel of
                        Some e \<Rightarrow> [Release Environment (Some e)]
                      | None \<Rightarrow> [Release Environment None, ProcessExit 0])
                   else [])
      in (first @ second @ third,
          if env \<and> env_down rel = None then log_line (Info [Lit ''Goodbye'']) w else w))"

datatype run_result = Returned | Threw error | Exited nat | Waiting

text \<open>
  After the \<^verbatim>\<open>try\<close> and \<^verbatim>\<open>catch\<close> of \<^verbatim>\<open>run\<close>: the \<^verbatim>\<open>finally\<close> block, then the exit
  of the process, the failure the \<^verbatim>\<open>catch\<close> rethrew, or the return.
\<close>

definition run_finally ::
  "releases \<Rightarrow> Wallet option \<Rightarrow> bool \<Rightarrow> error option \<Rightarrow> lifecycle list \<Rightarrow> world
     \<Rightarrow> run_result \<times> lifecycle list \<times> world" where
  "run_finally rel wallet env rethrown events w =
     (case teardown rel wallet env w of
        (events', w') \<Rightarrow>
          (if ProcessExit 0 \<in> set events' then Exited 0
           else (case rethrown of Some e \<Rightarrow> Threw e | None \<Rightarrow> Returned),
           events @ events', w'))"

text \<open>
  \<^verbatim>\<open>run\<close> from \<^verbatim>\<open>buildWallet\<close> on. A failure of \<^verbatim>\<open>buildWallet\<close> is thrown before
  the \<^verbatim>\<open>try\<close> and releases nothing. The \<^verbatim>\<open>catch\<close> logs an \<^verbatim>\<open>Error\<close> and rethrows
  every other value.
\<close>

definition run_from_wallet ::
  "collab \<Rightarrow> (string \<Rightarrow> error + Wallet) \<Rightarrow> string \<Rightarrow> releases \<Rightarrow> bool \<Rightarrow> bool
     \<Rightarrow> lifecycle list \<Rightarrow> BBoardDerivedState input list \<Rightarrow> world
     \<Rightarrow> run_result \<times> lifecycle list \<times> world" where
  "run_from_wallet c buildFromSeed nativeToken rel env standalone events inputs w =
     (case buildWallet buildFromSeed nativeToken standalone inputs w no_session of
        (Pending, rest, w1, s) \<Rightarrow> (Waiting, events, w1)
      | (Rejected e, rest, w1, s) \<Rightarrow> (Threw e, events, w1)
      | (Resolved wallet, rest, w1, s) \<Rightarrow>
          (let events1 = events @ (case wallet of None \<Rightarrow> []
                                   | Some wallet' \<Rightarrow> [Acquire WalletHandle]);
               body = (case wallet of
                         None \<Rightarrow> (Resolved (), w1)
                       | Some wallet' \<Rightarrow>
                           (case firstValueFrom (values_of (wallet_state wallet'))
                                   (wallet_state_end wallet') of
                              Pending \<Rightarrow> (Pending, w1)
                            | Rejected e \<Rightarrow> (Rejected e, w1)
                            | Resolved state0 \<Rightarrow>
                                (case mainLoop c rest w1 of (r, rest', w2, s') \<Rightarrow> (r, w2))))
           in case body of
                (Pending, w2) \<Rightarrow> (Waiting, events1, w2)
              | (Resolved u, w2) \<Rightarrow> run_finally rel wallet env None events1 w2
              | (Rejected e, w2) \<Rightarrow>
                  (if instanceof_Error e then
                     run_finally rel wallet env None events1
                       (log_line (Debug [Stack e])
                       (log_line (Info [Lit ''Exiting...''])
                       (log_line (Err [Lit ''Found error '', Quoted (Message e)]) w2)))
                   else run_finally rel wallet env (Some e) events1 w2)))"

text \<open>
  \<^verbatim>\<open>run\<close>: the input interface is created first, then the Docker environment is
  started when one is given (a failure there is thrown before the \<^verbatim>\<open>try\<close>), then the
  wallet is built.
\<close>

definition run ::
  "collab \<Rightarrow> (string \<Rightarrow> error + Wallet) \<Rightarrow> string \<Rightarrow> releases
     \<Rightarrow> DockerComposeEnvironment option \<Rightarrow> bool
     \<Rightarrow> BBoardDerivedState input list \<Rightarrow> world
     \<Rightarrow> run_result \<times> lifecycle list \<times> world" where
  "run c buildFromSeed nativeToken rel dockerEnv standalone inputs w =
     (case dockerEnv of
        None \<Rightarrow>
          run_from_wallet c buildFromSeed nativeToken rel False standalone
            [Acquire InputInterface] inputs w
      | Some d \<Rightarrow>
          (case up d of
             Some e \<Rightarrow> (Threw e, [Acquire InputInterface], w)
           | None \<Rightarrow>
               (case (if standalone then mapContainerPort d else None) of
                  Some e \<Rightarrow> (Threw e, [Acquire InputInterface, Acquire Environment], w)
                | None \<Rightarrow>
                    run_from_wallet c buildFromSeed nativeToken rel True standalone
                      [Acquire InputInterface, Acquire Environment] inputs w)))"

text \<open>The resources acquired and the resources released in a sequence of events.\<close>

fun acquired :: "lifecycle list \<Rightarrow> resource list" where
  "acquired [] = []"
| "acquired (Acquire r # events) = r # acquired events"
| "acquired (ev # events) = acquired events"

fun released :: "lifecycle list \<Rightarrow> resource list" where
  "released [] = []"
| "released (Release r outcome # events) = r # released events"
| "released (ev # events) = released events"

section \<open>Scenarios\<close>

text \<open>
  Concrete worlds and collaborators at which the theorems below are instantiated. In
  \<open>empty_world\<close> the store and the chain hold nothing and the random source hands out
  the bytes 0, 1, 2, ... The decoder \<open>three_counters\<close> reads a state of exactly three
  bytes as the three counters and rejects every other layout.
\<close>

definition empty_world :: world where
  "empty_world =
     \<lparr>privateStateProvider = (\<lambda>key. Inr None),
      publicDataProvider = (\<lambda>address'. Inr None),
      random_source = (\<lambda>n. of_nat n),
      random_drawn = 0,
      logger = []\<rparr>"

definition three_counters :: "bytes \<Rightarrow> error + Ledger" where
  "three_counters bs =
     (case bs of
        [a, b, c] \<Rightarrow>
          Inr \<lparr>authorizedCommitments = [], authorizedNullifiers = [],
               restrictedCounter1 = uint a, restrictedCounter2 = uint b,
               restrictedCounter3 = uint c\<rparr>
      | _ \<Rightarrow> Inl DecodeError)"

text \<open>
  \<open>rejecting_collab\<close>: every deployment, attachment and call is rejected, and nothing is
  written to the store; a rejected deployment leaves a trace line with the secret key it
  was handed. \<open>storing_collab\<close>: deployment and attachment succeed at the address
  \<open>''c0ffee''\<close> (respectively the address asked for) and store the initial private
  state under its key, as midnight-js does on success; calls go through.
\<close>

definition rejecting_collab :: collab where
  "rejecting_collab =
     \<lparr>ledger = three_counters,
      public_key = (\<lambda>sk. rev sk),
      nullifier = (\<lambda>sk. sk @ sk),
      deployContract = (\<lambda>options w.
        (Inl DeploymentError,
         log_line (Trace [Lit ''initialPrivateState'',
                          Hex (secretKey (initialPrivateState options))]) w)),
      findDeployedContract = (\<lambda>options w. (Inl NotFound, w)),
      callTx = (\<lambda>circ deployed w. (Some CallRejected, w))\<rparr>"

definition storing_collab :: collab where
  "storing_collab =
     \<lparr>ledger = three_counters,
      public_key = (\<lambda>sk. rev sk),
      nullifier = (\<lambda>sk. sk @ sk),
      deployContract = (\<lambda>options w.
        (Inr \<lparr>deployed_contractAddress = ''c0ffee''\<rparr>,
         w\<lparr>privateStateProvider := (privateStateProvider w)
              (privateStateKey options := Inr (Some (initialPrivateState options)))\<rparr>)),
      findDeployedContract = (\<lambda>options w.
        (Inr \<lparr>deployed_contractAddress = contractAddress options\<rparr>,
         w\<lparr>privateStateProvider := (privateStateProvider w)
              (privateStateKey options := Inr (Some (initialPrivateState options)))\<rparr>)),
      callTx = (\<lambda>circ deployed w. (None, w))\<rparr>"

text \<open>
  \<open>calls_rejected\<close>: deployment succeeds as with \<open>storing_collab\<close>, every contract
  call is rejected. \<open>board_collab\<close>: the API of the bulletin board CLI, with a
  deployment at \<open>''c0ffee''\<close> and calls that go through.
\<close>

definition calls_rejected :: collab where
  "calls_rejected = storing_collab\<lparr>callTx := (\<lambda>circ deployed w. (Some CallRejected, w))\<rparr>"

definition board_collab :: collab_extra where
  "board_collab =
     \<lparr>ledger_extra = (\<lambda>bs. Inl DecodeError),
      deploy_extra = (\<lambda>w. (Inr (new_BBoardAPI \<lparr>deployed_contractAddress = ''c0ffee''\<rparr> w), w)),
      join_extra = (\<lambda>a w. (Inr (new_BBoardAPI \<lparr>deployed_contractAddress = a\<rparr> w), w)),
      post = (\<lambda>api m w. (None, w)),
      takeDown = (\<lambda>api w. (None, w))\<rparr>"

text \<open>
  \<open>funded_wallet\<close>: a wallet whose first state is synced and holds 4 tokens of type
  \<open>''tok''\<close>. \<open>all_released\<close>: every release succeeds.
\<close>

definition funded_wallet :: Wallet where
  "funded_wallet =
     \<lparr>wallet_state =
        [(0, False, \<lparr>syncProgress = Some \<lparr>synced = 1000, total_blocks = 1000\<rparr>,
                     balances = [''tok'' \<mapsto> 4], address = ''addr''\<rparr>)],
      wallet_state_end = Open\<rparr>"

definition all_released :: releases where
  "all_released =
     \<lparr>rli_close = None, rli_removeAllListeners = None, wallet_close = None, env_down = None\<rparr>"
section \<open>Properties of the funding gate\<close>

lemma throttleTime_subset:
  "x \<in> set (throttleTime d opened xs) \<Longrightarrow> x \<in> set (values_of xs)"
proof (induction xs arbitrary: opened)
  case Nil
  then show ?case by simp
next
  case (Cons p xs)
  obtain t r y where p: "p = (t, r, y)" by (cases p)
  from Cons.prems p have "x = y \<or> (\<exists>opened'. x \<in> set (throttleTime d opened' xs))"
    by (auto split: option.splits if_splits)
  then show ?case using Cons.IH p by (auto simp: values_of_def)
qed

lemma throttleTime_append:
  "\<exists>zs. throttleTime d opened (xs @ ys) = throttleTime d opened xs @ zs"
  by (induction xs arbitrary: opened) (auto split: option.splits)

lemma firstValueFrom_find:
  "firstValueFrom (filter P (map f (filter Q xs))) ending =
     (case find (\<lambda>x. Q x \<and> P (f x)) xs of
        Some x \<Rightarrow> Resolved (f x)
      | None \<Rightarrow> (case ending of
                  Open \<Rightarrow> Pending
                | Completed \<Rightarrow> Rejected EmptyError
                | Failed e \<Rightarrow> Rejected e))"
  by (induction xs) (auto simp: firstValueFrom_def)

lemma find_Some_holds: "find P xs = Some x \<Longrightarrow> x \<in> set xs \<and> P x"
  by (induction xs) (auto split: if_splits)

lemma find_append_Some: "find P xs = Some x \<Longrightarrow> find P (xs @ ys) = Some x"
  by (induction xs) auto

lemma waitForFunds_find:
  "waitForFunds nt wallet =
     (case find (\<lambda>s. sync_filter s \<and> 0 < native_balance nt s)
             (throttleTime 10000 None (wallet_state wallet)) of
        Some s \<Rightarrow> Resolved (native_balance nt s)
      | None \<Rightarrow> (case wallet_state_end wallet of
                  Open \<Rightarrow> Pending
                | Completed \<Rightarrow> Rejected EmptyError
                | Failed e \<Rightarrow> Rejected e))"
  unfolding waitForFunds_def by (rule firstValueFrom_find)

lemma passes_both_filters:
  "sync_filter s \<and> 0 < native_balance nt s \<longleftrightarrow>
     (\<exists>p b. syncProgress s = Some p \<and> total_blocks p - synced p < 100
            \<and> balances s nt = Some b \<and> 0 < b)"
  by (auto simp: sync_filter_def filter_synced_def filter_total_def native_balance_def
      split: option.splits)

lemma waitForFunds_Resolved:
  assumes "waitForFunds nt wallet = Resolved b"
  shows "\<exists>s \<in> set (throttleTime 10000 None (wallet_state wallet)).
           s \<in> set (values_of (wallet_state wallet))
           \<and> sync_filter s \<and> native_balance nt s = b \<and> 0 < b"
proof -
  from assms obtain s where
    f: "find (\<lambda>s. sync_filter s \<and> 0 < native_balance nt s)
          (throttleTime 10000 None (wallet_state wallet)) = Some s"
    and b: "native_balance nt s = b"
    unfolding waitForFunds_find by (auto split: option.splits stream_end.splits)
  from f have s: "s \<in> set (throttleTime 10000 None (wallet_state wallet))"
      "sync_filter s" "0 < native_balance nt s"
    by (auto dest: find_Some_holds)
  from s(1) have "s \<in> set (values_of (wallet_state wallet))" by (rule throttleTime_subset)
  with s b show ?thesis by auto
qed

lemma waitForFunds_Pending:
  "waitForFunds nt wallet = Pending \<longleftrightarrow>
     wallet_state_end wallet = Open
     \<and> (\<forall>s \<in> set (throttleTime 10000 None (wallet_state wallet)).
          \<not> (sync_filter s \<and> 0 < native_balance nt s))"
  unfolding waitForFunds_find
  by (auto simp: find_None_iff split: option.splits stream_end.splits dest: find_Some_holds)

lemma waitForFunds_stable:
  assumes "waitForFunds nt wallet = Resolved b"
  shows "waitForFunds nt
           (wallet\<lparr>wallet_state := wallet_state wallet @ later, wallet_state_end := ending\<rparr>)
         = Resolved b"
proof -
  obtain zs where zs: "throttleTime 10000 None (wallet_state wallet @ later)
      = throttleTime 10000 None (wallet_state wallet) @ zs"
    using throttleTime_append by blast
  from assms obtain s where
    f: "find (\<lambda>s. sync_filter s \<and> 0 < native_balance nt s)
          (throttleTime 10000 None (wallet_state wallet)) = Some s"
    and b: "native_balance nt s = b"
    unfolding waitForFunds_find by (auto split: option.splits stream_end.splits)
  show ?thesis unfolding waitForFunds_find using f b by (simp add: zs find_append_Some)
qed

lemma waitForFunds_absent_progress:
  assumes "\<forall>s \<in> set (values_of (wallet_state wallet)). syncProgress s = None"
  shows "waitForFunds nt wallet =
     (case wallet_state_end wallet of
        Open \<Rightarrow> Pending
      | Completed \<Rightarrow> Rejected EmptyError
      | Failed e \<Rightarrow> Rejected e)"
proof -
  have "\<forall>s \<in> set (throttleTime 10000 None (wallet_state wallet)).
      \<not> (sync_filter s \<and> 0 < native_balance nt s)"
  proof
    fix s assume "s \<in> set (throttleTime 10000 None (wallet_state wallet))"
    then have "s \<in> set (values_of (wallet_state wallet))" by (rule throttleTime_subset)
    with assms have "syncProgress s = None" by blast
    then show "\<not> (sync_filter s \<and> 0 < native_balance nt s)"
      by (simp add: passes_both_filters)
  qed
  then have "find (\<lambda>s. sync_filter s \<and> 0 < native_balance nt s)
      (throttleTime 10000 None (wallet_state wallet)) = None"
    by (simp add: find_None_iff)
  then show ?thesis unfolding waitForFunds_find by simp
qed

lemma tapped_none: "(\<forall>x \<in> set xs. \<not> ok x) \<Longrightarrow> tapped ok xs = xs"
  by (induction xs) auto

lemma waitForFunds_log_absent_progress:
  assumes "\<forall>s \<in> set (values_of (wallet_state wallet)). syncProgress s = None"
  shows "waitForFunds_log nt wallet =
     map scanned_message (throttleTime 10000 None (wallet_state wallet))"
proof -
  have "\<forall>s \<in> set (throttleTime 10000 None (wallet_state wallet)).
      \<not> (sync_filter s \<and> 0 < native_balance nt s)"
  proof
    fix s assume "s \<in> set (throttleTime 10000 None (wallet_state wallet))"
    then have "s \<in> set (values_of (wallet_state wallet))" by (rule throttleTime_subset)
    with assms have "syncProgress s = None" by blast
    then show "\<not> (sync_filter s \<and> 0 < native_balance nt s)"
      by (simp add: passes_both_filters)
  qed
  then show ?thesis unfolding waitForFunds_log_def by (simp add: tapped_none)
qed

lemma buildWalletAndWaitForFunds_skips_wait:
  assumes "buildFromSeed seed = Inr wallet" "wallet_state wallet = (t, r, st) # rest"
    "balances st nt = Some b" "b \<noteq> 0"
  shows "buildWalletAndWaitForFunds buildFromSeed nt seed =
    (Resolved wallet, [Info [Lit ''Your wallet seed is: '', Lit seed],
                       Info [Lit ''Your wallet address is: '', Lit (address st)],
                       Info [Lit ''Your wallet balance is: '', Num b]])"
  using assms by (simp add: buildWalletAndWaitForFunds_def firstValueFrom_def values_of_def)

lemma buildWalletAndWaitForFunds_waits:
  assumes "buildFromSeed seed = Inr wallet" "wallet_state wallet = (t, r, st) # rest"
    "balances st nt = None \<or> balances st nt = Some 0"
  shows "fst (buildWalletAndWaitForFunds buildFromSeed nt seed) =
    (case waitForFunds nt wallet of
       Resolved b \<Rightarrow> Resolved wallet | Rejected e \<Rightarrow> Rejected e | Pending \<Rightarrow> Pending)"
  using assms
  by (auto simp add: buildWalletAndWaitForFunds_def firstValueFrom_def values_of_def Let_def
      split: promise.splits)

lemma buildWalletAndWaitForFunds_waits_log:
  assumes "buildFromSeed seed = Inr wallet" "wallet_state wallet = (t, r, st) # rest"
    "balances st nt = None \<or> balances st nt = Some 0"
    "waitForFunds nt wallet = Resolved b"
  shows "last (snd (buildWalletAndWaitForFunds buildFromSeed nt seed)) =
    Info [Lit ''Your wallet balance is: '', Num b]"
  using assms
  by (auto simp add: buildWalletAndWaitForFunds_def firstValueFrom_def values_of_def Let_def
      split: promise.splits)

text \<open>
  C4, as stated, fails: the gate as a whole is \<^verbatim>\<open>buildWalletAndWaitForFunds\<close>, which
  calls \<^verbatim>\<open>waitForFunds\<close> only when the first wallet state shows no balance. A wallet
  whose first state holds 5 tokens and reports no sync progress at all is let through at
  once, with balance 5 logged, although that state fails the sync condition.
\<close>

theorem funding_gate_skipped_counterexample:
  "buildWalletAndWaitForFunds
      (\<lambda>seed. Inr \<lparr>wallet_state =
         [(0, False, \<lparr>syncProgress = None, balances = [''tok'' \<mapsto> 5], address = ''addr''\<rparr>)],
         wallet_state_end = Open\<rparr>)
      ''tok'' ''seed''
    = (Resolved \<lparr>wallet_state =
         [(0, False, \<lparr>syncProgress = None, balances = [''tok'' \<mapsto> 5], address = ''addr''\<rparr>)],
         wallet_state_end = Open\<rparr>,
       [Info [Lit ''Your wallet seed is: '', Lit ''seed''],
        Info [Lit ''Your wallet address is: '', Lit ''addr''],
        Info [Lit ''Your wallet balance is: '', Num 5]])
   \<and> \<not> sync_filter \<lparr>syncProgress = None, balances = [''tok'' \<mapsto> 5], address = ''addr''\<rparr>"
  by (simp add: buildWalletAndWaitForFunds_def firstValueFrom_def values_of_def
      sync_filter_def filter_synced_def filter_total_def)

text \<open>
  C4, amended. \<^verbatim>\<open>waitForFunds\<close> looks only at the wallet states that pass the
  10-second throttle, in order, and settles on the first of them that reports both sync
  progress with total minus synced below 100 and a positive native-token balance: it
  resolves with the balance of that state. When no throttled state is such a state, it
  is pending while the wallet's stream is open, and rejected when the stream has failed
  or completed. So a resolved balance is the positive balance of a throttled state of
  the stream that meets the sync condition; the promise is pending exactly when the
  stream is open and no throttled state meets both conditions; and once resolved, its
  value is changed neither by later wallet states nor by the end of the stream (it
  returns once). \<^verbatim>\<open>buildWalletAndWaitForFunds\<close> enters this wait only when the first
  wallet state has no balance or balance 0; it then settles as the wait does and, when
  the wait resolves, its last log line is the balance the wait returned. When the first
  state has a nonzero balance it resolves at once, logging that balance, whatever the
  sync progress.
\<close>

theorem funding_gate_amended:
  "waitForFunds nt wallet =
     (case find (\<lambda>s. sync_filter s \<and> 0 < native_balance nt s)
             (throttleTime 10000 None (wallet_state wallet)) of
        Some s \<Rightarrow> Resolved (native_balance nt s)
      | None \<Rightarrow> (case wallet_state_end wallet of
                  Open \<Rightarrow> Pending
                | Completed \<Rightarrow> Rejected EmptyError
                | Failed e \<Rightarrow> Rejected e))
   \<and> (sync_filter ws \<and> 0 < native_balance nt ws \<longleftrightarrow>
        (\<exists>p c. syncProgress ws = Some p \<and> total_blocks p - synced p < 100
               \<and> balances ws nt = Some c \<and> 0 < c))
   \<and> (waitForFunds nt wallet = Resolved b \<longrightarrow>
        (\<exists>s \<in> set (throttleTime 10000 None (wallet_state wallet)).
           s \<in> set (values_of (wallet_state wallet))
           \<and> (\<exists>p. syncProgress s = Some p \<and> total_blocks p - synced p < 100)
           \<and> balances s nt = Some b \<and> 0 < b))
   \<and> (waitForFunds nt wallet = Pending \<longleftrightarrow>
        wallet_state_end wallet = Open
        \<and> (\<forall>s \<in> set (throttleTime 10000 None (wallet_state wallet)).
             \<not> (sync_filter s \<and> 0 < native_balance nt s)))
   \<and> (waitForFunds nt wallet = Resolved b \<longrightarrow>
        waitForFunds nt
          (wallet\<lparr>wallet_state := wallet_state wallet @ later, wallet_state_end := ending\<rparr>)
        = Resolved b)
   \<and> (buildFromSeed seed = Inr wallet \<and> wallet_state wallet = (t, r, st) # rest
        \<and> (balances st nt = None \<or> balances st nt = Some 0) \<longrightarrow>
        fst (buildWalletAndWaitForFunds buildFromSeed nt seed) =
          (case waitForFunds nt wallet of
             Resolved b' \<Rightarrow> Resolved wallet | Rejected e' \<Rightarrow> Rejected e' | Pending \<Rightarrow> Pending)
        \<and> (waitForFunds nt wallet = Resolved b \<longrightarrow>
             last (snd (buildWalletAndWaitForFunds buildFromSeed nt seed)) =
               Info [Lit ''Your wallet balance is: '', Num b]))
   \<and> (buildFromSeed seed = Inr wallet \<and> wallet_state wallet = (t, r, st) # rest
        \<and> balances st nt = Some bal \<and> bal \<noteq> 0 \<longrightarrow>
        buildWalletAndWaitForFunds buildFromSeed nt seed =
          (Resolved wallet, [Info [Lit ''Your wallet seed is: '', Lit seed],
                             Info [Lit ''Your wallet address is: '', Lit (address st)],
                             Info [Lit ''Your wallet balance is: '', Num bal]]))"
proof (intro conjI impI)
  show "waitForFunds nt wallet =
     (case find (\<lambda>s. sync_filter s \<and> 0 < native_balance nt s)
             (throttleTime 10000 None (wallet_state wallet)) of
        Some s \<Rightarrow> Resolved (native_balance nt s)
      | None \<Rightarrow> (case wallet_state_end wallet of
                  Open \<Rightarrow> Pending
                | Completed \<Rightarrow> Rejected EmptyError
                | Failed e \<Rightarrow> Rejected e))"
    by (rule waitForFunds_find)
next
  show "sync_filter ws \<and> 0 < native_balance nt ws \<longleftrightarrow>
        (\<exists>p c. syncProgress ws = Some p \<and> total_blocks p - synced p < 100
               \<and> balances ws nt = Some c \<and> 0 < c)"
    by (rule passes_both_filters)
next
  assume "waitForFunds nt wallet = Resolved b"
  then obtain s where s: "s \<in> set (throttleTime 10000 None (wallet_state wallet))"
      "s \<in> set (values_of (wallet_state wallet))"
      "sync_filter s \<and> 0 < native_balance nt s" "native_balance nt s = b"
    using waitForFunds_Resolved by blast
  from s(3) obtain p c where pc: "syncProgress s = Some p" "total_blocks p - synced p < 100"
      "balances s nt = Some c" "0 < c"
    unfolding passes_both_filters by blast
  from pc(3) s(4) have "c = b" by (simp add: native_balance_def)
  with s pc show "\<exists>s \<in> set (throttleTime 10000 None (wallet_state wallet)).
           s \<in> set (values_of (wallet_state wallet))
           \<and> (\<exists>p. syncProgress s = Some p \<and> total_blocks p - synced p < 100)
           \<and> balances s nt = Some b \<and> 0 < b"
    by blast
next
  show "waitForFunds nt wallet = Pending \<longleftrightarrow>
        wallet_state_end wallet = Open
        \<and> (\<forall>s \<in> set (throttleTime 10000 None (wallet_state wallet)).
             \<not> (sync_filter s \<and> 0 < native_balance nt s))"
    by (rule waitForFunds_Pending)
next
  assume "waitForFunds nt wallet = Resolved b"
  then show "waitForFunds nt
          (wallet\<lparr>wallet_state := wallet_state wallet @ later, wallet_state_end := ending\<rparr>)
        = Resolved b"
    by (rule waitForFunds_stable)
next
  assume "buildFromSeed seed = Inr wallet \<and> wallet_state wallet = (t, r, st) # rest
        \<and> (balances st nt = None \<or> balances st nt = Some 0)"
  then show "fst (buildWalletAndWaitForFunds buildFromSeed nt seed) =
          (case waitForFunds nt wallet of
             Resolved b' \<Rightarrow> Resolved wallet | Rejected e' \<Rightarrow> Rejected e' | Pending \<Rightarrow> Pending)"
    using buildWalletAndWaitForFunds_waits by blast
next
  assume "buildFromSeed seed = Inr wallet \<and> wallet_state wallet = (t, r, st) # rest
        \<and> (balances st nt = None \<or> balances st nt = Some 0)"
    and "waitForFunds nt wallet = Resolved b"
  then show "last (snd (buildWalletAndWaitForFunds buildFromSeed nt seed)) =
               Info [Lit ''Your wallet balance is: '', Num b]"
    using buildWalletAndWaitForFunds_waits_log by blast
next
  assume "buildFromSeed seed = Inr wallet \<and> wallet_state wallet = (t, r, st) # rest
        \<and> balances st nt = Some bal \<and> bal \<noteq> 0"
  then show "buildWalletAndWaitForFunds buildFromSeed nt seed =
          (Resolved wallet, [Info [Lit ''Your wallet seed is: '', Lit seed],
                             Info [Lit ''Your wallet address is: '', Lit (address st)],
                             Info [Lit ''Your wallet balance is: '', Num bal]])"
    using buildWalletAndWaitForFunds_skips_wait by blast
qed

theorem funding_gate_amended_witness:
  "waitForFunds ''tok''
      \<lparr>wallet_state =
         [(0, False, \<lparr>syncProgress = Some \<lparr>synced = 990, total_blocks = 1000\<rparr>,
               balances = Map.empty, address = ''addr''\<rparr>),
          (5, False, \<lparr>syncProgress = Some \<lparr>synced = 990, total_blocks = 1000\<rparr>,
               balances = [''tok'' \<mapsto> 3], address = ''addr''\<rparr>),
          (25000, False, \<lparr>syncProgress = Some \<lparr>synced = 995, total_blocks = 1000\<rparr>,
               balances = [''tok'' \<mapsto> 7], address = ''addr''\<rparr>)],
       wallet_state_end = Open\<rparr> = Resolved 7
   \<and> waitForFunds ''tok''
      \<lparr>wallet_state =
         [(0, False, \<lparr>syncProgress = Some \<lparr>synced = 990, total_blocks = 1000\<rparr>,
               balances = Map.empty, address = ''addr''\<rparr>),
          (5, False, \<lparr>syncProgress = Some \<lparr>synced = 990, total_blocks = 1000\<rparr>,
               balances = [''tok'' \<mapsto> 3], address = ''addr''\<rparr>),
          (25000, False, \<lparr>syncProgress = Some \<lparr>synced = 995, total_blocks = 1000\<rparr>,
               balances = [''tok'' \<mapsto> 7], address = ''addr''\<rparr>),
          (40000, False, \<lparr>syncProgress = Some \<lparr>synced = 1000, total_blocks = 1000\<rparr>,
               balances = [''tok'' \<mapsto> 9], address = ''addr''\<rparr>)],
       wallet_state_end = Completed\<rparr> = Resolved 7
   \<and> waitForFunds ''tok''
      \<lparr>wallet_state =
         [(0, False, \<lparr>syncProgress = Some \<lparr>synced = 990, total_blocks = 1000\<rparr>,
               balances = Map.empty, address = ''addr''\<rparr>),
          (5, False, \<lparr>syncProgress = Some \<lparr>synced = 990, total_blocks = 1000\<rparr>,
               balances = [''tok'' \<mapsto> 3], address = ''addr''\<rparr>)],
       wallet_state_end = Open\<rparr> = Pending
   \<and> waitForFunds ''tok''
      \<lparr>wallet_state =
         [(0, False, \<lparr>syncProgress = Some \<lparr>synced = 10, total_blocks = 1000\<rparr>,
               balances = [''tok'' \<mapsto> 5], address = ''addr''\<rparr>),
          (25000, False, \<lparr>syncProgress = Some \<lparr>synced = 1000, total_blocks = 1000\<rparr>,
               balances = [''tok'' \<mapsto> 0], address = ''addr''\<rparr>)],
       wallet_state_end = Open\<rparr> = Pending
   \<and> waitForFunds ''tok''
      \<lparr>wallet_state =
         [(0, False, \<lparr>syncProgress = Some \<lparr>synced = 10, total_blocks = 1000\<rparr>,
               balances = [''tok'' \<mapsto> 5], address = ''addr''\<rparr>),
          (25000, False, \<lparr>syncProgress = Some \<lparr>synced = 1000, total_blocks = 1000\<rparr>,
               balances = [''tok'' \<mapsto> 0], address = ''addr''\<rparr>)],
       wallet_state_end = Completed\<rparr> = Rejected EmptyError
   \<and> waitForFunds ''tok''
      \<lparr>wallet_state =
         [(0, False, \<lparr>syncProgress = Some \<lparr>synced = 990, total_blocks = 1000\<rparr>,
               balances = Map.empty, address = ''addr''\<rparr>),
          (10000, False, \<lparr>syncProgress = Some \<lparr>synced = 995, total_blocks = 1000\<rparr>,
               balances = [''tok'' \<mapsto> 7], address = ''addr''\<rparr>)],
       wallet_state_end = Failed StoreUnavailable\<rparr> = Rejected StoreUnavailable
   \<and> waitForFunds ''tok''
      \<lparr>wallet_state =
         [(0, False, \<lparr>syncProgress = Some \<lparr>synced = 990, total_blocks = 1000\<rparr>,
               balances = Map.empty, address = ''addr''\<rparr>),
          (10000, True, \<lparr>syncProgress = Some \<lparr>synced = 995, total_blocks = 1000\<rparr>,
               balances = [''tok'' \<mapsto> 7], address = ''addr''\<rparr>)],
       wallet_state_end = Failed StoreUnavailable\<rparr> = Resolved 7
   \<and> buildWalletAndWaitForFunds
      (\<lambda>seed. Inr \<lparr>wallet_state =
         [(0, False, \<lparr>syncProgress = Some \<lparr>synced = 990, total_blocks = 1000\<rparr>,
               balances = Map.empty, address = ''addr''\<rparr>),
          (5, False, \<lparr>syncProgress = Some \<lparr>synced = 990, total_blocks = 1000\<rparr>,
               balances = [''tok'' \<mapsto> 3], address = ''addr''\<rparr>),
          (25000, False, \<lparr>syncProgress = Some \<lparr>synced = 995, total_blocks = 1000\<rparr>,
               balances = [''tok'' \<mapsto> 7], address = ''addr''\<rparr>)],
       wallet_state_end = Open\<rparr>) ''tok'' ''seed''
     = (Resolved \<lparr>wallet_state =
         [(0, False, \<lparr>syncProgress = Some \<lparr>synced = 990, total_blocks = 1000\<rparr>,
               balances = Map.empty, address = ''addr''\<rparr>),
          (5, False, \<lparr>syncProgress = Some \<lparr>synced = 990, total_blocks = 1000\<rparr>,
               balances = [''tok'' \<mapsto> 3], address = ''addr''\<rparr>),
          (25000, False, \<lparr>syncProgress = Some \<lparr>synced = 995, total_blocks = 1000\<rparr>,
               balances = [''tok'' \<mapsto> 7], address = ''addr''\<rparr>)],
       wallet_state_end = Open\<rparr>,
        [Info [Lit ''Your wallet seed is: '', Lit ''seed''],
         Info [Lit ''Your wallet address is: '', Lit ''addr''],
         Info [Lit ''Your wallet balance is: 0''],
         Info [Lit ''Waiting to receive tokens...''],
         Info [Lit ''Wallet scanned '', Num 990, Lit '' blocks out of '', Num 1000],
         Info [Lit ''Wallet scanned '', Num 995, Lit '' blocks out of '', Num 1000],
         Info [Lit ''Your wallet balance is: '', Num 7]])
   \<and> snd (buildWalletAndWaitForFunds
      (\<lambda>seed. Inr \<lparr>wallet_state =
         [(0, False, \<lparr>syncProgress = Some \<lparr>synced = 1000, total_blocks = 1000\<rparr>,
               balances = [''tok'' \<mapsto> 4], address = ''addr''\<rparr>)],
       wallet_state_end = Open\<rparr>) ''tok'' ''seed'')
     = [Info [Lit ''Your wallet seed is: '', Lit ''seed''],
        Info [Lit ''Your wallet address is: '', Lit ''addr''],
        Info [Lit ''Your wallet balance is: '', Num 4]]"
proof -
  let ?sa = "\<lparr>syncProgress = Some \<lparr>synced = 990, total_blocks = 1000\<rparr>,
               balances = Map.empty, address = ''addr''\<rparr>"
  let ?sb = "\<lparr>syncProgress = Some \<lparr>synced = 990, total_blocks = 1000\<rparr>,
               balances = [''tok'' \<mapsto> 3], address = ''addr''\<rparr>"
  let ?sc = "\<lparr>syncProgress = Some \<lparr>synced = 995, total_blocks = 1000\<rparr>,
               balances = [''tok'' \<mapsto> 7], address = ''addr''\<rparr>"
  let ?sd = "\<lparr>syncProgress = Some \<lparr>synced = 1000, total_blocks = 1000\<rparr>,
               balances = [''tok'' \<mapsto> 9], address = ''addr''\<rparr>"
  let ?w = "\<lparr>wallet_state = [(0, False, ?sa), (5, False, ?sb), (25000, False, ?sc)],
             wallet_state_end = Open\<rparr>"
  let ?x = "\<lparr>wallet_state = [(0, False, ?sa), (5, False, ?sb)], wallet_state_end = Open\<rparr>"
  let ?ua = "\<lparr>syncProgress = Some \<lparr>synced = 10, total_blocks = 1000\<rparr>,
               balances = [''tok'' \<mapsto> 5], address = ''addr''\<rparr>"
  let ?ub = "\<lparr>syncProgress = Some \<lparr>synced = 1000, total_blocks = 1000\<rparr>,
               balances = [''tok'' \<mapsto> 0], address = ''addr''\<rparr>"
  let ?u = "\<lparr>wallet_state = [(0, False, ?ua), (25000, False, ?ub)], wallet_state_end = Open\<rparr>"
  let ?uc = "\<lparr>wallet_state = [(0, False, ?ua), (25000, False, ?ub)],
              wallet_state_end = Completed\<rparr>"
  let ?ya = "\<lparr>wallet_state = [(0, False, ?sa), (10000, False, ?sc)],
              wallet_state_end = Failed StoreUnavailable\<rparr>"
  let ?yb = "\<lparr>wallet_state = [(0, False, ?sa), (10000, True, ?sc)],
              wallet_state_end = Failed StoreUnavailable\<rparr>"
  let ?va = "\<lparr>syncProgress = Some \<lparr>synced = 1000, total_blocks = 1000\<rparr>,
               balances = [''tok'' \<mapsto> 4], address = ''addr''\<rparr>"
  let ?v = "\<lparr>wallet_state = [(0, False, ?va)], wallet_state_end = Open\<rparr>"
  note defs = sync_filter_def filter_synced_def filter_total_def native_balance_def
  note A = funding_gate_amended [where nt = "''tok''" and wallet = ?w and b = 7
      and later = "[(40000, False, ?sd)]" and ending = Completed
      and buildFromSeed = "\<lambda>seed. Inr ?w" and seed = "''seed''"
      and t = 0 and r = False and st = ?sa and rest = "[(5, False, ?sb), (25000, False, ?sc)]"
      and ws = ?sc]
  have pass: "sync_filter ?sc \<and> 0 < native_balance ''tok'' ?sc"
  proof -
    have "\<exists>p c. syncProgress ?sc = Some p \<and> total_blocks p - synced p < 100
        \<and> balances ?sc ''tok'' = Some c \<and> 0 < c" by simp
    then show ?thesis using A by blast
  qed
  have "waitForFunds ''tok'' ?w =
     (case find (\<lambda>s. sync_filter s \<and> 0 < native_balance ''tok'' s)
             (throttleTime 10000 None (wallet_state ?w)) of
        Some s \<Rightarrow> Resolved (native_balance ''tok'' s)
      | None \<Rightarrow> (case wallet_state_end ?w of
                  Open \<Rightarrow> Pending
                | Completed \<Rightarrow> Rejected EmptyError
                | Failed e \<Rightarrow> Rejected e))"
    using A by blast
  then have r: "waitForFunds ''tok'' ?w = Resolved 7" by (simp add: defs)
  have w_states: "wallet_state ?w = (0, False, ?sa) # [(5, False, ?sb), (25000, False, ?sc)]"
    by simp
  have a1: "waitForFunds ''tok''
      (?w\<lparr>wallet_state := wallet_state ?w @ [(40000, False, ?sd)],
           wallet_state_end := Completed\<rparr>) = Resolved 7"
    using A r by blast
  have a2: "fst (buildWalletAndWaitForFunds (\<lambda>seed. Inr ?w) ''tok'' ''seed'') = Resolved ?w"
    using A r w_states by simp
  have a3: "last (snd (buildWalletAndWaitForFunds (\<lambda>seed. Inr ?w) ''tok'' ''seed'')) =
      Info [Lit ''Your wallet balance is: '', Num 7]"
    using A r w_states by simp
  have a4: "snd (buildWalletAndWaitForFunds (\<lambda>seed. Inr ?w) ''tok'' ''seed'') =
        [Info [Lit ''Your wallet seed is: '', Lit ''seed''],
         Info [Lit ''Your wallet address is: '', Lit ''addr''],
         Info [Lit ''Your wallet balance is: 0''],
         Info [Lit ''Waiting to receive tokens...''],
         Info [Lit ''Wallet scanned '', Num 990, Lit '' blocks out of '', Num 1000],
         Info [Lit ''Wallet scanned '', Num 995, Lit '' blocks out of '', Num 1000],
         Info [Lit ''Your wallet balance is: '', Num 7]]"
    by (simp add: buildWalletAndWaitForFunds_def firstValueFrom_def values_of_def
        waitForFunds_def waitForFunds_log_def scanned_message_def defs)
  have none_x: "wallet_state_end ?x = Open
      \<and> (\<forall>s \<in> set (throttleTime 10000 None (wallet_state ?x)).
            \<not> (sync_filter s \<and> 0 < native_balance ''tok'' s))"
    by (simp add: defs)
  have b0: "waitForFunds ''tok'' ?x = Pending"
    using funding_gate_amended [where nt = "''tok''" and wallet = ?x] none_x by blast
  have none_u: "wallet_state_end ?u = Open
      \<and> (\<forall>s \<in> set (throttleTime 10000 None (wallet_state ?u)).
            \<not> (sync_filter s \<and> 0 < native_balance ''tok'' s))"
    by (simp add: defs)
  have b1: "waitForFunds ''tok'' ?u = Pending"
    using funding_gate_amended [where nt = "''tok''" and wallet = ?u] none_u by blast
  have "waitForFunds ''tok'' ?uc =
     (case find (\<lambda>s. sync_filter s \<and> 0 < native_balance ''tok'' s)
             (throttleTime 10000 None (wallet_state ?uc)) of
        Some s \<Rightarrow> Resolved (native_balance ''tok'' s)
      | None \<Rightarrow> (case wallet_state_end ?uc of
                  Open \<Rightarrow> Pending
                | Completed \<Rightarrow> Rejected EmptyError
                | Failed e \<Rightarrow> Rejected e))"
    using funding_gate_amended [where nt = "''tok''" and wallet = ?uc] by blast
  then have b2: "waitForFunds ''tok'' ?uc = Rejected EmptyError" by (simp add: defs)
  have "waitForFunds ''tok'' ?ya =
     (case find (\<lambda>s. sync_filter s \<and> 0 < native_balance ''tok'' s)
             (throttleTime 10000 None (wallet_state ?ya)) of
        Some s \<Rightarrow> Resolved (native_balance ''tok'' s)
      | None \<Rightarrow> (case wallet_state_end ?ya of
                  Open \<Rightarrow> Pending
                | Completed \<Rightarrow> Rejected EmptyError
                | Failed e \<Rightarrow> Rejected e))"
    using funding_gate_amended [where nt = "''tok''" and wallet = ?ya] by blast
  then have b3: "waitForFunds ''tok'' ?ya = Rejected StoreUnavailable" by (simp add: defs)
  have "waitForFunds ''tok'' ?yb =
     (case find (\<lambda>s. sync_filter s \<and> 0 < native_balance ''tok'' s)
             (throttleTime 10000 None (wallet_state ?yb)) of
        Some s \<Rightarrow> Resolved (native_balance ''tok'' s)
      | None \<Rightarrow> (case wallet_state_end ?yb of
                  Open \<Rightarrow> Pending
                | Completed \<Rightarrow> Rejected EmptyError
                | Failed e \<Rightarrow> Rejected e))"
    using funding_gate_amended [where nt = "''tok''" and wallet = ?yb] by blast
  then have b4: "waitForFunds ''tok'' ?yb = Resolved 7" by (simp add: defs)
  have c1: "buildWalletAndWaitForFunds (\<lambda>seed. Inr ?v) ''tok'' ''seed'' =
      (Resolved ?v, [Info [Lit ''Your wallet seed is: '', Lit ''seed''],
                     Info [Lit ''Your wallet address is: '', Lit (address ?va)],
                     Info [Lit ''Your wallet balance is: '', Num 4]])"
    using funding_gate_amended [where buildFromSeed = "\<lambda>seed. Inr ?v" and seed = "''seed''"
      and wallet = ?v and t = 0 and r = False and st = ?va and rest = "[]"
      and nt = "''tok''" and bal = 4]
    by simp
  have a5: "buildWalletAndWaitForFunds (\<lambda>seed. Inr ?w) ''tok'' ''seed'' =
      (Resolved ?w,
        [Info [Lit ''Your wallet seed is: '', Lit ''seed''],
         Info [Lit ''Your wallet address is: '', Lit ''addr''],
         Info [Lit ''Your wallet balance is: 0''],
         Info [Lit ''Waiting to receive tokens...''],
         Info [Lit ''Wallet scanned '', Num 990, Lit '' blocks out of '', Num 1000],
         Info [Lit ''Wallet scanned '', Num 995, Lit '' blocks out of '', Num 1000],
         Info [Lit ''Your wallet balance is: '', Num 7]])"
    using a2 a4 by (simp add: prod_eq_iff)
  from r a1 b0 b1 b2 b3 b4 a5 c1 pass a3 show ?thesis by simp
qed

lemma buildWalletAndWaitForFunds_absent_progress:
  assumes "buildFromSeed seed = Inr wallet" "wallet_state wallet = (t, r, st) # rest"
    "\<forall>s \<in> set (values_of (wallet_state wallet)). syncProgress s = None"
  shows "(\<exists>passed. fst (buildWalletAndWaitForFunds buildFromSeed nt seed) = Resolved passed)
     \<longleftrightarrow> (\<exists>bal. balances st nt = Some bal \<and> bal \<noteq> 0)"
proof (cases "balances st nt = None \<or> balances st nt = Some 0")
  case True
  from assms(3) have "waitForFunds nt wallet =
     (case wallet_state_end wallet of
        Open \<Rightarrow> Pending
      | Completed \<Rightarrow> Rejected EmptyError
      | Failed e \<Rightarrow> Rejected e)"
    by (rule waitForFunds_absent_progress)
  then have "\<forall>b. waitForFunds nt wallet \<noteq> Resolved b"
    by (auto split: stream_end.splits)
  then have "\<forall>passed. fst (buildWalletAndWaitForFunds buildFromSeed nt seed) \<noteq> Resolved passed"
    using buildWalletAndWaitForFunds_waits
      [where buildFromSeed = buildFromSeed and seed = seed and wallet = wallet and nt = nt
         and t = t and r = r and st = st and rest = rest] assms(1) assms(2) True
    by (auto split: promise.splits)
  with True show ?thesis by auto
next
  case False
  then obtain bal where bal: "balances st nt = Some bal" "bal \<noteq> 0" by auto
  have "fst (buildWalletAndWaitForFunds buildFromSeed nt seed) = Resolved wallet"
    using buildWalletAndWaitForFunds_skips_wait
      [where buildFromSeed = buildFromSeed and seed = seed and wallet = wallet and nt = nt
         and t = t and r = r and st = st and rest = rest and b = bal] assms(1) assms(2) bal
    by simp
  with bal show ?thesis by auto
qed

text \<open>
  C10, as stated, fails: a wallet that never reports sync progress does pass the gate.
  For a wallet whose two states both lack \<^verbatim>\<open>syncProgress\<close> and hold 5 and then 6
  tokens, \<^verbatim>\<open>waitForFunds\<close> stays pending, but \<^verbatim>\<open>buildWalletAndWaitForFunds\<close> finds a
  nonzero balance in the first state, never calls \<^verbatim>\<open>waitForFunds\<close>, and resolves with
  the wallet.
\<close>

theorem absent_progress_passes_gate_counterexample:
  "syncProgress \<lparr>syncProgress = None, balances = [''tok'' \<mapsto> 5], address = ''addr''\<rparr> = None
   \<and> syncProgress \<lparr>syncProgress = None, balances = [''tok'' \<mapsto> 6], address = ''addr''\<rparr> = None
   \<and> waitForFunds ''tok''
        \<lparr>wallet_state =
           [(0, False, \<lparr>syncProgress = None, balances = [''tok'' \<mapsto> 5], address = ''addr''\<rparr>),
            (15000, False,
               \<lparr>syncProgress = None, balances = [''tok'' \<mapsto> 6], address = ''addr''\<rparr>)],
         wallet_state_end = Open\<rparr>
       = Pending
   \<and> fst (buildWalletAndWaitForFunds
        (\<lambda>seed. Inr \<lparr>wallet_state =
           [(0, False, \<lparr>syncProgress = None, balances = [''tok'' \<mapsto> 5], address = ''addr''\<rparr>),
            (15000, False,
               \<lparr>syncProgress = None, balances = [''tok'' \<mapsto> 6], address = ''addr''\<rparr>)],
         wallet_state_end = Open\<rparr>) ''tok'' ''seed'')
       = Resolved \<lparr>wallet_state =
           [(0, False, \<lparr>syncProgress = None, balances = [''tok'' \<mapsto> 5], address = ''addr''\<rparr>),
            (15000, False,
               \<lparr>syncProgress = None, balances = [''tok'' \<mapsto> 6], address = ''addr''\<rparr>)],
         wallet_state_end = Open\<rparr>"
  by (simp add: buildWalletAndWaitForFunds_def waitForFunds_def firstValueFrom_def
      values_of_def sync_filter_def filter_synced_def filter_total_def)

text \<open>
  C10, amended. The filter of \<^verbatim>\<open>waitForFunds\<close> compares total minus synced with 100;
  for a wallet state without \<^verbatim>\<open>syncProgress\<close> it takes the synced count as 0 and the
  total as 1000, so it rejects the state, and the \<^verbatim>\<open>tap\<close> logs "unknown number" for
  the total. No access fails: the model has no error branch there, as the optional
  chaining of the source has none. For a wallet whose states never report sync progress,
  \<^verbatim>\<open>waitForFunds\<close> never resolves, whatever the balances: it is pending while the
  wallet's stream is open, and any rejection is the failure or the completion of that
  stream; every throttled state is logged and none is let through. Such a wallet passes
  \<^verbatim>\<open>buildWalletAndWaitForFunds\<close> exactly when its first state already holds a nonzero
  balance, the case in which \<^verbatim>\<open>waitForFunds\<close> is not called.
\<close>

theorem sync_filter_absent_progress:
  "sync_filter s = (filter_total s - filter_synced s < 100)
   \<and> (syncProgress s = None \<longrightarrow>
        filter_synced s = 0 \<and> filter_total s = 1000 \<and> \<not> sync_filter s
        \<and> scanned_message s =
            Info [Lit ''Wallet scanned '', Num 0, Lit '' blocks out of '',
                  Lit ''unknown number''])
   \<and> ((\<forall>s \<in> set (values_of (wallet_state wallet)). syncProgress s = None) \<longrightarrow>
        waitForFunds nt wallet \<noteq> Resolved b
        \<and> waitForFunds nt wallet =
            (case wallet_state_end wallet of
               Open \<Rightarrow> Pending
             | Completed \<Rightarrow> Rejected EmptyError
             | Failed e \<Rightarrow> Rejected e)
        \<and> waitForFunds_log nt wallet =
            map scanned_message (throttleTime 10000 None (wallet_state wallet)))
   \<and> (buildFromSeed seed = Inr wallet \<and> wallet_state wallet = (t, r, st) # rest
        \<and> (\<forall>s \<in> set (values_of (wallet_state wallet)). syncProgress s = None) \<longrightarrow>
        ((\<exists>passed. fst (buildWalletAndWaitForFunds buildFromSeed nt seed) = Resolved passed)
           \<longleftrightarrow> (\<exists>bal. balances st nt = Some bal \<and> bal \<noteq> 0)))"
proof (intro conjI impI)
  show "sync_filter s = (filter_total s - filter_synced s < 100)"
    by (simp add: sync_filter_def)
next
  assume "syncProgress s = None"
  then show "filter_synced s = 0" "filter_total s = 1000" "\<not> sync_filter s"
    "scanned_message s =
       Info [Lit ''Wallet scanned '', Num 0, Lit '' blocks out of '', Lit ''unknown number'']"
    by (simp_all add: sync_filter_def filter_synced_def filter_total_def scanned_message_def)
next
  assume a: "\<forall>s \<in> set (values_of (wallet_state wallet)). syncProgress s = None"
  then show w: "waitForFunds nt wallet =
            (case wallet_state_end wallet of
               Open \<Rightarrow> Pending
             | Completed \<Rightarrow> Rejected EmptyError
             | Failed e \<Rightarrow> Rejected e)"
    by (rule waitForFunds_absent_progress)
  then show "waitForFunds nt wallet \<noteq> Resolved b"
    by (auto split: stream_end.splits)
  from a show "waitForFunds_log nt wallet =
            map scanned_message (throttleTime 10000 None (wallet_state wallet))"
    by (rule waitForFunds_log_absent_progress)
next
  assume "buildFromSeed seed = Inr wallet \<and> wallet_state wallet = (t, r, st) # rest
        \<and> (\<forall>s \<in> set (values_of (wallet_state wallet)). syncProgress s = None)"
  then show "(\<exists>passed. fst (buildWalletAndWaitForFunds buildFromSeed nt seed) = Resolved passed)
           \<longleftrightarrow> (\<exists>bal. balances st nt = Some bal \<and> bal \<noteq> 0)"
    using buildWalletAndWaitForFunds_absent_progress by blast
qed

theorem sync_filter_absent_progress_witness:
  "\<not> sync_filter \<lparr>syncProgress = None, balances = [''tok'' \<mapsto> 5], address = ''addr''\<rparr>
   \<and> filter_synced \<lparr>syncProgress = None, balances = [''tok'' \<mapsto> 5], address = ''addr''\<rparr> = 0
   \<and> filter_total \<lparr>syncProgress = None, balances = [''tok'' \<mapsto> 5], address = ''addr''\<rparr>
       = 1000
   \<and> waitForFunds ''tok''
        \<lparr>wallet_state =
           [(0, False, \<lparr>syncProgress = None, balances = [''tok'' \<mapsto> 5], address = ''addr''\<rparr>),
            (15000, False,
               \<lparr>syncProgress = None, balances = [''tok'' \<mapsto> 6], address = ''addr''\<rparr>)],
         wallet_state_end = Open\<rparr>
       = Pending
   \<and> waitForFunds ''tok''
        \<lparr>wallet_state =
           [(0, False, \<lparr>syncProgress = None, balances = [''tok'' \<mapsto> 5], address = ''addr''\<rparr>),
            (15000, False,
               \<lparr>syncProgress = None, balances = [''tok'' \<mapsto> 6], address = ''addr''\<rparr>)],
         wallet_state_end = Completed\<rparr>
       = Rejected EmptyError
   \<and> waitForFunds_log ''tok''
        \<lparr>wallet_state =
           [(0, False, \<lparr>syncProgress = None, balances = [''tok'' \<mapsto> 5], address = ''addr''\<rparr>),
            (15000, False,
               \<lparr>syncProgress = None, balances = [''tok'' \<mapsto> 6], address = ''addr''\<rparr>)],
         wallet_state_end = Open\<rparr>
       = [Info [Lit ''Wallet scanned '', Num 0, Lit '' blocks out of '', Lit ''unknown number''],
          Info [Lit ''Wallet scanned '', Num 0, Lit '' blocks out of '', Lit ''unknown number'']]
   \<and> (\<exists>passed. fst (buildWalletAndWaitForFunds
        (\<lambda>seed. Inr \<lparr>wallet_state =
           [(0, False, \<lparr>syncProgress = None, balances = [''tok'' \<mapsto> 5], address = ''addr''\<rparr>),
            (15000, False,
               \<lparr>syncProgress = None, balances = [''tok'' \<mapsto> 6], address = ''addr''\<rparr>)],
         wallet_state_end = Open\<rparr>) ''tok'' ''seed'') = Resolved passed)
   \<and> (\<nexists>passed. fst (buildWalletAndWaitForFunds
        (\<lambda>seed. Inr \<lparr>wallet_state =
           [(0, False, \<lparr>syncProgress = None, balances = [''tok'' \<mapsto> 0], address = ''addr''\<rparr>),
            (15000, False,
               \<lparr>syncProgress = None, balances = [''tok'' \<mapsto> 6], address = ''addr''\<rparr>)],
         wallet_state_end = Open\<rparr>) ''tok'' ''seed'') = Resolved passed)"
proof -
  let ?sa = "\<lparr>syncProgress = None, balances = [''tok'' \<mapsto> 5], address = ''addr''\<rparr>"
  let ?sb = "\<lparr>syncProgress = None, balances = [''tok'' \<mapsto> 6], address = ''addr''\<rparr>"
  let ?sz = "\<lparr>syncProgress = None, balances = [''tok'' \<mapsto> 0], address = ''addr''\<rparr>"
  let ?w = "\<lparr>wallet_state = [(0, False, ?sa), (15000, False, ?sb)], wallet_state_end = Open\<rparr>"
  let ?c = "\<lparr>wallet_state = [(0, False, ?sa), (15000, False, ?sb)],
             wallet_state_end = Completed\<rparr>"
  let ?z = "\<lparr>wallet_state = [(0, False, ?sz), (15000, False, ?sb)], wallet_state_end = Open\<rparr>"
  have absent: "syncProgress ?sa = None" by simp
  have all_absent: "\<forall>s \<in> set (values_of (wallet_state ?w)). syncProgress s = None"
    by (simp add: values_of_def)
  have all_absent_c: "\<forall>s \<in> set (values_of (wallet_state ?c)). syncProgress s = None"
    by (simp add: values_of_def)
  have all_absent_z: "\<forall>s \<in> set (values_of (wallet_state ?z)). syncProgress s = None"
    by (simp add: values_of_def)
  note T = sync_filter_absent_progress [where s = ?sa and wallet = ?w and nt = "''tok''"
      and buildFromSeed = "\<lambda>seed. Inr ?w" and seed = "''seed''" and t = 0 and r = False
      and st = ?sa and rest = "[(15000, False, ?sb)]"]
  note C = sync_filter_absent_progress [where wallet = ?c and nt = "''tok''"]
  note Z = sync_filter_absent_progress [where wallet = ?z and nt = "''tok''"
      and buildFromSeed = "\<lambda>seed. Inr ?z" and seed = "''seed''" and t = 0 and r = False
      and st = ?sz and rest = "[(15000, False, ?sb)]"]
  have s1: "\<not> sync_filter ?sa" "filter_synced ?sa = 0" "filter_total ?sa = 1000"
    using T absent by blast+
  have "waitForFunds ''tok'' ?w =
      (case wallet_state_end ?w of
         Open \<Rightarrow> Pending
       | Completed \<Rightarrow> Rejected EmptyError
       | Failed e \<Rightarrow> Rejected e)"
    using T all_absent by blast
  then have s2: "waitForFunds ''tok'' ?w = Pending" by simp
  have "waitForFunds ''tok'' ?c =
      (case wallet_state_end ?c of
         Open \<Rightarrow> Pending
       | Completed \<Rightarrow> Rejected EmptyError
       | Failed e \<Rightarrow> Rejected e)"
    using C all_absent_c by blast
  then have s3: "waitForFunds ''tok'' ?c = Rejected EmptyError" by simp
  have "waitForFunds_log ''tok'' ?w =
      map scanned_message (throttleTime 10000 None (wallet_state ?w))"
    using T all_absent by blast
  then have s4: "waitForFunds_log ''tok'' ?w =
      [Info [Lit ''Wallet scanned '', Num 0, Lit '' blocks out of '', Lit ''unknown number''],
       Info [Lit ''Wallet scanned '', Num 0, Lit '' blocks out of '', Lit ''unknown number'']]"
    by (simp add: scanned_message_def)
  have s5: "\<exists>passed. fst (buildWalletAndWaitForFunds (\<lambda>seed. Inr ?w) ''tok'' ''seed'')
      = Resolved passed"
    using T all_absent by simp
  have s6: "\<nexists>passed. fst (buildWalletAndWaitForFunds (\<lambda>seed. Inr ?z) ''tok'' ''seed'')
      = Resolved passed"
    using Z all_absent_z by simp
  from s1 s2 s3 s4 s5 s6 show ?thesis by simp
qed

section \<open>Properties of the API\<close>

lemma getPrivateState_existing:
  "privateStateProvider w ''bboardPrivateState'' = Inr (Some ps) \<Longrightarrow> getPrivateState w = (Inr ps, w)"
  by (simp add: getPrivateState_def)

lemma getPrivateState_absent:
  "privateStateProvider w ''bboardPrivateState'' = Inr None \<Longrightarrow>
   getPrivateState w =
     (Inr (createBBoardPrivateState (map (random_source w) [random_drawn w ..< random_drawn w + 32])),
      w\<lparr>random_drawn := random_drawn w + 32\<rparr>)"
  by (simp add: getPrivateState_def randomBytes_def)


lemma getPrivateState_draws:
  "random_drawn (snd (getPrivateState w)) \<noteq> random_drawn w \<Longrightarrow>
   privateStateProvider w ''bboardPrivateState'' = Inr None"
  by (simp add: getPrivateState_def randomBytes_def split: sum.splits option.splits)




text \<open>
  C3. When the store holds a record under \<open>''bboardPrivateState''\<close>, \<^verbatim>\<open>getPrivateState\<close>
  returns that record and changes nothing (no random byte is drawn), and \<^verbatim>\<open>deploy\<close>
  and \<^verbatim>\<open>join\<close> hand exactly that record to the deployment helper as the initial
  private state. Random bytes are drawn only when the store has no record, and then the
  fresh secret key is 32 bytes long. Hence a second \<^verbatim>\<open>deploy\<close> or \<^verbatim>\<open>join\<close>, made while
  the record is still in the store, reads the same key material.
\<close>

theorem existing_private_state_reused:
  "(privateStateProvider w ''bboardPrivateState'' = Inr (Some ps) \<longrightarrow>
      getPrivateState w = (Inr ps, w)
      \<and> deploy c w =
          (case deployContract c
                  \<lparr>privateStateKey = ''bboardPrivateState'', initialPrivateState = ps\<rparr>
                  (log_line (Info [Lit ''deployContract'']) w) of
             (Inl err, w2) \<Rightarrow> (Inl err, w2)
           | (Inr deployed, w2) \<Rightarrow>
               (Inr (new_BBoardAPI deployed w2),
                log_line (Trace [Lit ''contractDeployed'', Lit (deployed_contractAddress deployed)]) w2))
      \<and> join c a w =
          (case findDeployedContract c
                  \<lparr>privateStateKey = ''bboardPrivateState'', initialPrivateState = ps,
                   contractAddress = a\<rparr>
                  (log_line (Info [Lit ''joinContract'', Lit a]) w) of
             (Inl err, w2) \<Rightarrow> (Inl err, w2)
           | (Inr deployed, w2) \<Rightarrow>
               (Inr (new_BBoardAPI deployed w2),
                log_line (Trace [Lit ''contractJoined'', Lit (deployed_contractAddress deployed)]) w2)))
   \<and> (random_drawn (snd (getPrivateState w)) \<noteq> random_drawn w \<longrightarrow>
        privateStateProvider w ''bboardPrivateState'' = Inr None)
   \<and> (privateStateProvider w ''bboardPrivateState'' = Inr None \<longrightarrow>
        (\<exists>fresh. fst (getPrivateState w) = Inr fresh \<and> length (secretKey fresh) = 32)
        \<and> random_drawn (snd (getPrivateState w)) = random_drawn w + 32)
   \<and> (privateStateProvider w ''bboardPrivateState'' = Inr (Some ps)
        \<and> privateStateProvider (snd (deploy c w)) ''bboardPrivateState'' = Inr (Some ps) \<longrightarrow>
        getPrivateState (snd (deploy c w)) = (Inr ps, snd (deploy c w)))
   \<and> (privateStateProvider w ''bboardPrivateState'' = Inr (Some ps)
        \<and> privateStateProvider (snd (join c a w)) ''bboardPrivateState'' = Inr (Some ps) \<longrightarrow>
        getPrivateState (snd (join c a w)) = (Inr ps, snd (join c a w)))"
proof (intro conjI impI)
  assume ex: "privateStateProvider w ''bboardPrivateState'' = Inr (Some ps)"
  then show "getPrivateState w = (Inr ps, w)" by (rule getPrivateState_existing)
  let ?wd = "log_line (Info [Lit ''deployContract'']) w"
  have gd: "getPrivateState ?wd = (Inr ps, ?wd)"
    using ex by (simp add: getPrivateState_existing log_line_def)
  obtain r w3 where dc: "deployContract c
      \<lparr>privateStateKey = ''bboardPrivateState'', initialPrivateState = ps\<rparr> ?wd = (r, w3)"
    by (cases "deployContract c
      \<lparr>privateStateKey = ''bboardPrivateState'', initialPrivateState = ps\<rparr> ?wd")
  show "deploy c w =
          (case deployContract c
                  \<lparr>privateStateKey = ''bboardPrivateState'', initialPrivateState = ps\<rparr>
                  (log_line (Info [Lit ''deployContract'']) w) of
             (Inl err, w2) \<Rightarrow> (Inl err, w2)
           | (Inr deployed, w2) \<Rightarrow>
               (Inr (new_BBoardAPI deployed w2),
                log_line (Trace [Lit ''contractDeployed'', Lit (deployed_contractAddress deployed)]) w2))"
    unfolding deploy_def gd using dc
    by (cases r) (simp_all add: Let_def new_BBoardAPI_def log_line_def)
  let ?wj = "log_line (Info [Lit ''joinContract'', Lit a]) w"
  have gj: "getPrivateState ?wj = (Inr ps, ?wj)"
    using ex by (simp add: getPrivateState_existing log_line_def)
  obtain r' w4 where fc: "findDeployedContract c
      \<lparr>privateStateKey = ''bboardPrivateState'', initialPrivateState = ps,
       contractAddress = a\<rparr> ?wj = (r', w4)"
    by (cases "findDeployedContract c
      \<lparr>privateStateKey = ''bboardPrivateState'', initialPrivateState = ps,
       contractAddress = a\<rparr> ?wj")
  show "join c a w =
          (case findDeployedContract c
                  \<lparr>privateStateKey = ''bboardPrivateState'', initialPrivateState = ps,
                   contractAddress = a\<rparr>
                  (log_line (Info [Lit ''joinContract'', Lit a]) w) of
             (Inl err, w2) \<Rightarrow> (Inl err, w2)
           | (Inr deployed, w2) \<Rightarrow>
               (Inr (new_BBoardAPI deployed w2),
                log_line (Trace [Lit ''contractJoined'', Lit (deployed_contractAddress deployed)]) w2))"
    unfolding join_def gj using fc
    by (cases r') (simp_all add: Let_def new_BBoardAPI_def log_line_def)
next
  assume "random_drawn (snd (getPrivateState w)) \<noteq> random_drawn w"
  then show "privateStateProvider w ''bboardPrivateState'' = Inr None"
    by (rule getPrivateState_draws)
next
  assume absent: "privateStateProvider w ''bboardPrivateState'' = Inr None"
  show "\<exists>fresh. fst (getPrivateState w) = Inr fresh \<and> length (secretKey fresh) = 32"
    using getPrivateState_absent [OF absent] by (simp add: createBBoardPrivateState_def)
  show "random_drawn (snd (getPrivateState w)) = random_drawn w + 32"
    using getPrivateState_absent [OF absent] by simp
next
  assume "privateStateProvider w ''bboardPrivateState'' = Inr (Some ps)
        \<and> privateStateProvider (snd (deploy c w)) ''bboardPrivateState'' = Inr (Some ps)"
  then show "getPrivateState (snd (deploy c w)) = (Inr ps, snd (deploy c w))"
    by (simp add: getPrivateState_existing)
next
  assume "privateStateProvider w ''bboardPrivateState'' = Inr (Some ps)
        \<and> privateStateProvider (snd (join c a w)) ''bboardPrivateState'' = Inr (Some ps)"
  then show "getPrivateState (snd (join c a w)) = (Inr ps, snd (join c a w))"
    by (simp add: getPrivateState_existing)
qed

theorem existing_private_state_reused_witness:
  "privateStateProvider (snd (deploy storing_collab empty_world)) ''bboardPrivateState''
      = Inr (Some \<lparr>secretKey = map of_nat [0..<32]\<rparr>)
   \<and> fst (getPrivateState (snd (deploy storing_collab empty_world)))
      = Inr \<lparr>secretKey = map of_nat [0..<32]\<rparr>
   \<and> random_drawn (snd (deploy storing_collab empty_world)) = 32
   \<and> random_drawn (snd (deploy storing_collab (snd (deploy storing_collab empty_world)))) = 32
   \<and> fst (deploy storing_collab (snd (deploy storing_collab empty_world)))
      = Inr \<lparr>deployedContract = \<lparr>deployed_contractAddress = ''c0ffee''\<rparr>,
             deployedContractAddress = ''c0ffee'',
             privateStateRead = Inr (Some \<lparr>secretKey = map of_nat [0..<32]\<rparr>)\<rparr>
   \<and> fst (getPrivateState
          (snd (deploy storing_collab (snd (deploy storing_collab empty_world)))))
      = Inr \<lparr>secretKey = map of_nat [0..<32]\<rparr>
   \<and> random_drawn (snd (join storing_collab ''c0ffee'' (snd (deploy storing_collab empty_world)))) = 32
   \<and> fst (join storing_collab ''c0ffee'' (snd (deploy storing_collab empty_world)))
      = Inr \<lparr>deployedContract = \<lparr>deployed_contractAddress = ''c0ffee''\<rparr>,
             deployedContractAddress = ''c0ffee'',
             privateStateRead = Inr (Some \<lparr>secretKey = map of_nat [0..<32]\<rparr>)\<rparr>
   \<and> fst (getPrivateState
          (snd (join storing_collab ''c0ffee'' (snd (deploy storing_collab empty_world)))))
      = Inr \<lparr>secretKey = map of_nat [0..<32]\<rparr>
   \<and> random_drawn (snd (getPrivateState empty_world)) = 32
   \<and> privateStateProvider empty_world ''bboardPrivateState'' = Inr None"
proof -
  let ?ps = "\<lparr>secretKey = map of_nat [0..<32]\<rparr> :: BBoardPrivateState"
  let ?w = "snd (deploy storing_collab empty_world)"
  note T = existing_private_state_reused [where w = ?w and ps = ?ps and c = storing_collab
      and a = "''c0ffee''"]
  note T0 = existing_private_state_reused [where w = empty_world]
  have first: "deploy storing_collab empty_world =
      (Inr \<lparr>deployedContract = \<lparr>deployed_contractAddress = ''c0ffee''\<rparr>,
             deployedContractAddress = ''c0ffee'',
             privateStateRead = Inr (Some ?ps)\<rparr>,
       empty_world\<lparr>privateStateProvider := (\<lambda>key. Inr None)(''bboardPrivateState'' := Inr (Some ?ps)),
                   random_drawn := 32,
                   logger := [Info [Lit ''deployContract''], Trace [Lit ''contractDeployed'', Lit ''c0ffee'']]\<rparr>)"
    by (simp add: deploy_def getPrivateState_def randomBytes_def storing_collab_def
        empty_world_def log_line_def createBBoardPrivateState_def new_BBoardAPI_def)
  have ex: "privateStateProvider ?w ''bboardPrivateState'' = Inr (Some ?ps)"
    unfolding first by simp
  have drawn: "random_drawn ?w = 32" unfolding first by simp
  have g: "getPrivateState ?w = (Inr ?ps, ?w)" using T ex by blast
  have d: "deploy storing_collab ?w =
          (case deployContract storing_collab
                  \<lparr>privateStateKey = ''bboardPrivateState'', initialPrivateState = ?ps\<rparr>
                  (log_line (Info [Lit ''deployContract'']) ?w) of
             (Inl err, w2) \<Rightarrow> (Inl err, w2)
           | (Inr deployed, w2) \<Rightarrow>
               (Inr (new_BBoardAPI deployed w2),
                log_line (Trace [Lit ''contractDeployed'', Lit (deployed_contractAddress deployed)]) w2))"
    using T ex by blast
  have j: "join storing_collab ''c0ffee'' ?w =
          (case findDeployedContract storing_collab
                  \<lparr>privateStateKey = ''bboardPrivateState'', initialPrivateState = ?ps,
                   contractAddress = ''c0ffee''\<rparr>
                  (log_line (Info [Lit ''joinContract'', Lit ''c0ffee'']) ?w) of
             (Inl err, w2) \<Rightarrow> (Inl err, w2)
           | (Inr deployed, w2) \<Rightarrow>
               (Inr (new_BBoardAPI deployed w2),
                log_line (Trace [Lit ''contractJoined'', Lit (deployed_contractAddress deployed)]) w2))"
    using T ex by blast
  have d': "random_drawn (snd (deploy storing_collab ?w)) = 32
      \<and> fst (deploy storing_collab ?w) =
         Inr \<lparr>deployedContract = \<lparr>deployed_contractAddress = ''c0ffee''\<rparr>,
             deployedContractAddress = ''c0ffee'', privateStateRead = Inr (Some ?ps)\<rparr>
      \<and> privateStateProvider (snd (deploy storing_collab ?w)) ''bboardPrivateState''
          = Inr (Some ?ps)"
    unfolding d using drawn ex
    by (simp add: storing_collab_def log_line_def new_BBoardAPI_def)
  have j': "random_drawn (snd (join storing_collab ''c0ffee'' ?w)) = 32
      \<and> fst (join storing_collab ''c0ffee'' ?w) =
         Inr \<lparr>deployedContract = \<lparr>deployed_contractAddress = ''c0ffee''\<rparr>,
             deployedContractAddress = ''c0ffee'', privateStateRead = Inr (Some ?ps)\<rparr>
      \<and> privateStateProvider (snd (join storing_collab ''c0ffee'' ?w)) ''bboardPrivateState''
          = Inr (Some ?ps)"
    unfolding j using drawn ex
    by (simp add: storing_collab_def log_line_def new_BBoardAPI_def)
  have again_d: "getPrivateState (snd (deploy storing_collab ?w))
      = (Inr ?ps, snd (deploy storing_collab ?w))"
    using T ex d' by blast
  have again_j: "getPrivateState (snd (join storing_collab ''c0ffee'' ?w))
      = (Inr ?ps, snd (join storing_collab ''c0ffee'' ?w))"
    using T ex j' by blast
  have fresh: "random_drawn (snd (getPrivateState empty_world)) = 32"
    by (simp add: getPrivateState_def randomBytes_def empty_world_def)
  then have "random_drawn (snd (getPrivateState empty_world)) \<noteq> random_drawn empty_world"
    by (simp add: empty_world_def)
  then have absent: "privateStateProvider empty_world ''bboardPrivateState'' = Inr None"
    using T0 by blast
  from ex g drawn d' j' again_d again_j absent fresh show ?thesis by simp
qed

section \<open>Properties of reading the ledger\<close>

text \<open>
  C6. When the public data provider reports no contract state at an address,
  \<^verbatim>\<open>getBBoardLedgerState\<close> returns \<^verbatim>\<open>null\<close> (it does not fail, and the decoder is not
  called), and \<^verbatim>\<open>displayLedgerState\<close> logs that no contract is deployed there.
  \<^verbatim>\<open>null\<close> is returned in that case only: a state the decoder rejects makes
  \<^verbatim>\<open>getBBoardLedgerState\<close> fail with the decoder's error.
\<close>

theorem getBBoardLedgerState_absent:
  "(publicDataProvider w a = Inr None \<longrightarrow>
      getBBoardLedgerState (ledger c) w a = Inr None
      \<and> displayLedgerState c \<lparr>deployed_contractAddress = a\<rparr> w =
          (None, log_line (Info [Lit ''There is no voting board contract deployed at '', Lit a]) w))
   \<and> (getBBoardLedgerState (ledger c) w a = Inr None \<longrightarrow> publicDataProvider w a = Inr None)
   \<and> (publicDataProvider w a = Inr (Some contractState) \<and> ledger c (data contractState) = Inl e \<longrightarrow>
        getBBoardLedgerState (ledger c) w a = Inl e
        \<and> displayLedgerState c \<lparr>deployed_contractAddress = a\<rparr> w = (Some e, w))"
  by (auto simp: getBBoardLedgerState_def displayLedgerState_def split: sum.splits option.splits)

theorem getBBoardLedgerState_absent_witness:
  "getBBoardLedgerState (ledger storing_collab)
      (empty_world\<lparr>publicDataProvider :=
         (\<lambda>a. if a = ''bad'' then Inr (Some \<lparr>data = [7]\<rparr>) else Inr None)\<rparr>) ''c0ffee'' = Inr None
   \<and> publicDataProvider
      (empty_world\<lparr>publicDataProvider :=
         (\<lambda>a. if a = ''bad'' then Inr (Some \<lparr>data = [7]\<rparr>) else Inr None)\<rparr>) ''c0ffee'' = Inr None
   \<and> logger (snd (displayLedgerState storing_collab \<lparr>deployed_contractAddress = ''c0ffee''\<rparr>
      (empty_world\<lparr>publicDataProvider :=
         (\<lambda>a. if a = ''bad'' then Inr (Some \<lparr>data = [7]\<rparr>) else Inr None)\<rparr>)))
      = [Info [Lit ''There is no voting board contract deployed at '', Lit ''c0ffee'']]
   \<and> getBBoardLedgerState (ledger storing_collab)
      (empty_world\<lparr>publicDataProvider :=
         (\<lambda>a. if a = ''bad'' then Inr (Some \<lparr>data = [7]\<rparr>) else Inr None)\<rparr>) ''bad''
      = Inl DecodeError"
proof -
  let ?w = "empty_world\<lparr>publicDataProvider :=
         (\<lambda>a. if a = ''bad'' then Inr (Some \<lparr>data = [7]\<rparr>) else Inr None)\<rparr>"
  have none: "publicDataProvider ?w ''c0ffee'' = Inr None" by simp
  have bad: "publicDataProvider ?w ''bad'' = Inr (Some \<lparr>data = [7]\<rparr>)
      \<and> ledger storing_collab (data \<lparr>data = [7]\<rparr>) = Inl DecodeError"
    by (simp add: storing_collab_def three_counters_def)
  note A = getBBoardLedgerState_absent [where w = ?w and a = "''c0ffee''" and c = storing_collab]
  note B = getBBoardLedgerState_absent [where w = ?w and a = "''bad''" and c = storing_collab
      and contractState = "\<lparr>data = [7]\<rparr>" and e = DecodeError]
  have a1: "getBBoardLedgerState (ledger storing_collab) ?w ''c0ffee'' = Inr None"
    using A none by blast
  have a2: "displayLedgerState storing_collab \<lparr>deployed_contractAddress = ''c0ffee''\<rparr> ?w =
          (None, log_line (Info [Lit ''There is no voting board contract deployed at '',
                                 Lit ''c0ffee'']) ?w)"
    using A none by blast
  have a3: "publicDataProvider ?w ''c0ffee'' = Inr None" using A a1 by blast
  have b1: "getBBoardLedgerState (ledger storing_collab) ?w ''bad'' = Inl DecodeError"
    using B bad by blast
  from a1 a2 a3 b1 show ?thesis by (simp add: log_line_def empty_world_def)
qed

section \<open>Properties of the derived-state pipeline\<close>

lemma state_run_append:
  "state_run c sub (xs @ ys) =
     (fst (state_run c (fst (state_run c sub xs)) ys),
      snd (state_run c sub xs) @ snd (state_run c (fst (state_run c sub xs)) ys))"
  by (induction xs arbitrary: sub) (auto split: prod.splits)

lemma combineLatest_slots:
  "latestLedger (fst (combineLatest c sub)) = latestLedger sub"
  "latestPrivate (fst (combineLatest c sub)) = latestPrivate sub"
  by (auto simp: combineLatest_def split: option.splits)

lemma combineLatest_Next:
  "Next d \<in> set (snd (combineLatest c sub)) \<Longrightarrow>
   latestLedger sub \<noteq> None \<and> (\<exists>ps. latestPrivate sub = Some (Some ps))"
  by (auto simp: combineLatest_def split: option.splits)

lemma no_Next_without_snapshot:
  "latestLedger sub = None \<Longrightarrow> \<forall>ev \<in> set evs. \<not> snapshot_arrival c ev \<Longrightarrow>
   Next d \<notin> set (snd (state_run c sub evs))"
proof (induction evs arbitrary: sub)
  case Nil
  then show ?case by simp
next
  case (Cons ev evs)
  obtain sub' out where st: "state_step c sub ev = (sub', out)" by (cases "state_step c sub ev")
  from Cons.prems have nev: "\<not> snapshot_arrival c ev" by simp
  have "latestLedger sub' = None \<and> Next d \<notin> set out"
    using st Cons.prems(1) nev
    by (auto simp: state_step_def snapshot_arrival_def combineLatest_def
        split: if_splits source_event.splits sum.splits option.splits)
  moreover from Cons.prems have "\<forall>ev \<in> set evs. \<not> snapshot_arrival c ev" by simp
  ultimately have "Next d \<notin> set (snd (state_run c sub' evs))" "Next d \<notin> set out"
    using Cons.IH by auto
  then show ?case using st by (auto split: prod.splits)
qed

lemma no_Next_without_private:
  "\<forall>ps. latestPrivate sub \<noteq> Some (Some ps) \<Longrightarrow> \<forall>ev \<in> set evs. \<not> private_arrival ev \<Longrightarrow>
   Next d \<notin> set (snd (state_run c sub evs))"
proof (induction evs arbitrary: sub)
  case Nil
  then show ?case by simp
next
  case (Cons ev evs)
  obtain sub' out where st: "state_step c sub ev = (sub', out)" by (cases "state_step c sub ev")
  from Cons.prems have nev: "\<not> private_arrival ev" by simp
  have "(\<forall>ps. latestPrivate sub' \<noteq> Some (Some ps)) \<and> Next d \<notin> set out"
    using st Cons.prems(1) nev
    by (auto simp: state_step_def private_arrival_def combineLatest_def
        split: if_splits source_event.splits sum.splits option.splits)
  moreover from Cons.prems have "\<forall>ev \<in> set evs. \<not> private_arrival ev" by simp
  ultimately have "Next d \<notin> set (snd (state_run c sub' evs))" "Next d \<notin> set out"
    using Cons.IH by auto
  then show ?case using st by (auto split: prod.splits)
qed


lemma sound_step:
  assumes "sound_event c ev" "\<not> closed sub" "latestPrivate sub \<noteq> Some None"
  shows "\<not> closed (fst (state_step c sub ev))
    \<and> latestPrivate (fst (state_step c sub ev)) \<noteq> Some None
    \<and> latestPrivate (fst (state_step c sub ev)) =
        (case ev of PrivateStateRead (Some ps) \<Rightarrow> Some (Some ps) | _ \<Rightarrow> latestPrivate sub)"
  using assms
  by (auto simp: sound_event_def snapshot_arrival_def private_arrival_def state_step_def
      combineLatest_def split: source_event.splits sum.splits option.splits)

lemma sound_run:
  assumes "\<forall>ev \<in> set evs. sound_event c ev" "\<not> closed sub" "latestPrivate sub \<noteq> Some None"
  shows "\<not> closed (fst (state_run c sub evs))
    \<and> latestPrivate (fst (state_run c sub evs)) \<noteq> Some None
    \<and> latestPrivate (fst (state_run c sub evs)) =
        (case latest_private evs of Some ps \<Rightarrow> Some (Some ps) | None \<Rightarrow> latestPrivate sub)"
  using assms
proof (induction evs arbitrary: sub)
  case Nil
  then show ?case by simp
next
  case (Cons ev evs)
  obtain sub' out where st: "state_step c sub ev = (sub', out)" by (cases "state_step c sub ev")
  from Cons.prems have ev: "sound_event c ev" and rest: "\<forall>ev \<in> set evs. sound_event c ev"
    by simp_all
  note step = sound_step [OF ev Cons.prems(2) Cons.prems(3)]
  have s': "\<not> closed sub'" "latestPrivate sub' \<noteq> Some None"
    "latestPrivate sub' =
        (case ev of PrivateStateRead (Some ps) \<Rightarrow> Some (Some ps) | _ \<Rightarrow> latestPrivate sub)"
    using step unfolding st fst_conv by blast+
  have ih: "\<not> closed (fst (state_run c sub' evs))"
    "latestPrivate (fst (state_run c sub' evs)) \<noteq> Some None"
    "latestPrivate (fst (state_run c sub' evs)) =
        (case latest_private evs of Some ps \<Rightarrow> Some (Some ps) | None \<Rightarrow> latestPrivate sub')"
    using Cons.IH [OF rest s'(1) s'(2)] by blast+
  have run: "fst (state_run c sub (ev # evs)) = fst (state_run c sub' evs)"
    using st by (simp split: prod.splits)
  show ?case
    unfolding run using ih s'(3)
    by (auto split: option.splits source_event.splits)
qed

lemma snapshot_after_private:
  assumes sound: "\<forall>ev \<in> set evs. sound_event c ev"
    and priv: "latest_private evs = Some ps"
    and dec: "ledger c (data contractState) = Inr l"
  shows "snd (state_run c subscribe (evs @ [ContractStateUpdate contractState])) =
     snd (state_run c subscribe evs) @ [Next (derivedState c l ps)]"
proof -
  let ?sub = "fst (state_run c subscribe evs)"
  have "\<not> closed subscribe" "latestPrivate subscribe \<noteq> Some None"
    by (simp_all add: subscribe_def)
  note run = sound_run [OF sound this]
  have live: "\<not> closed ?sub" using run by blast
  have "latestPrivate ?sub =
        (case latest_private evs of Some ps \<Rightarrow> Some (Some ps)
         | None \<Rightarrow> latestPrivate subscribe)"
    using run by blast
  then have lp: "latestPrivate ?sub = Some (Some ps)" using priv by simp
  have "state_step c ?sub (ContractStateUpdate contractState) =
      (?sub\<lparr>latestLedger := Some l\<rparr>, [Next (derivedState c l ps)])"
    using live lp dec by (simp add: state_step_def combineLatest_def)
  then show ?thesis by (simp add: state_run_append)
qed

text \<open>
  C2. A subscription to \<^verbatim>\<open>state$\<close> delivers no derived state over a sequence of source
  events in which no ledger snapshot has arrived or no private state has arrived (and
  the notifications over a sequence are a prefix of those over any longer one, so
  nothing is emitted before both have arrived). Once a private state is known, and as
  long as no source has failed, the arrival of a ledger snapshot adds exactly one
  notification: the derived state of that snapshot and the most recently known private
  state.
\<close>

theorem state_emits_combine_latest:
  "((\<forall>ev \<in> set evs. \<not> snapshot_arrival c ev) \<or> (\<forall>ev \<in> set evs. \<not> private_arrival ev) \<longrightarrow>
      (\<forall>d. Next d \<notin> set (snd (state_run c subscribe evs))))
   \<and> snd (state_run c subscribe (evs @ later)) =
       snd (state_run c subscribe evs) @ snd (state_run c (fst (state_run c subscribe evs)) later)
   \<and> ((\<forall>ev \<in> set evs. sound_event c ev) \<and> latest_private evs = Some ps
        \<and> ledger c (data contractState) = Inr l \<longrightarrow>
        snd (state_run c subscribe (evs @ [ContractStateUpdate contractState])) =
          snd (state_run c subscribe evs) @ [Next (derivedState c l ps)])"
proof (intro conjI impI allI)
  fix d
  assume "(\<forall>ev \<in> set evs. \<not> snapshot_arrival c ev) \<or> (\<forall>ev \<in> set evs. \<not> private_arrival ev)"
  then show "Next d \<notin> set (snd (state_run c subscribe evs))"
  proof
    assume "\<forall>ev \<in> set evs. \<not> snapshot_arrival c ev"
    then show ?thesis by (intro no_Next_without_snapshot) (simp_all add: subscribe_def)
  next
    assume "\<forall>ev \<in> set evs. \<not> private_arrival ev"
    then show ?thesis by (intro no_Next_without_private) (simp_all add: subscribe_def)
  qed
next
  show "snd (state_run c subscribe (evs @ later)) =
       snd (state_run c subscribe evs) @ snd (state_run c (fst (state_run c subscribe evs)) later)"
    by (simp add: state_run_append)
next
  assume "(\<forall>ev \<in> set evs. sound_event c ev) \<and> latest_private evs = Some ps
        \<and> ledger c (data contractState) = Inr l"
  then show "snd (state_run c subscribe (evs @ [ContractStateUpdate contractState])) =
          snd (state_run c subscribe evs) @ [Next (derivedState c l ps)]"
    using snapshot_after_private by blast
qed

theorem state_emits_combine_latest_witness:
  "snd (state_run storing_collab subscribe
        [ContractStateUpdate \<lparr>data = [1, 2, 3]\<rparr>, ContractStateUpdate \<lparr>data = [1, 2, 4]\<rparr>]) = []
   \<and> snd (state_run storing_collab subscribe [PrivateStateRead (Some \<lparr>secretKey = [9]\<rparr>)]) = []
   \<and> snd (state_run storing_collab subscribe
        [ContractStateUpdate \<lparr>data = [1, 2, 3]\<rparr>, ContractStateUpdate \<lparr>data = [1, 2, 4]\<rparr>,
         PrivateStateRead (Some \<lparr>secretKey = [9]\<rparr>)])
      = [Next \<lparr>restrictedCounter1_derived = 1, restrictedCounter2_derived = 2,
               restrictedCounter3_derived = 4\<rparr>]
   \<and> snd (state_run storing_collab subscribe
        [ContractStateUpdate \<lparr>data = [1, 2, 3]\<rparr>, ContractStateUpdate \<lparr>data = [1, 2, 4]\<rparr>,
         PrivateStateRead (Some \<lparr>secretKey = [9]\<rparr>), ContractStateUpdate \<lparr>data = [2, 2, 4]\<rparr>])
      = [Next \<lparr>restrictedCounter1_derived = 1, restrictedCounter2_derived = 2,
               restrictedCounter3_derived = 4\<rparr>,
         Next \<lparr>restrictedCounter1_derived = 2, restrictedCounter2_derived = 2,
               restrictedCounter3_derived = 4\<rparr>]"
proof -
  let ?a = "ContractStateUpdate \<lparr>data = [1, 2, 3]\<rparr>"
  let ?b = "ContractStateUpdate \<lparr>data = [1, 2, 4]\<rparr>"
  let ?p = "PrivateStateRead (Some \<lparr>secretKey = [9]\<rparr>)"
  let ?ps = "\<lparr>secretKey = [9]\<rparr> :: BBoardPrivateState"
  let ?l = "\<lparr>authorizedCommitments = [], authorizedNullifiers = [], restrictedCounter1 = 2,
            restrictedCounter2 = 2, restrictedCounter3 = 4\<rparr>"
  have no_private: "\<forall>ev \<in> set [?a, ?b]. \<not> private_arrival ev"
    by (simp add: private_arrival_def)
  have no_snapshot: "\<forall>ev \<in> set [?p]. \<not> snapshot_arrival storing_collab ev"
    by (simp add: snapshot_arrival_def)
  have g1: "\<forall>d. Next d \<notin> set (snd (state_run storing_collab subscribe [?a, ?b]))"
    using state_emits_combine_latest [where evs = "[?a, ?b]" and c = storing_collab] no_private
    by blast
  have g2: "\<forall>d. Next d \<notin> set (snd (state_run storing_collab subscribe [?p]))"
    using state_emits_combine_latest [where evs = "[?p]" and c = storing_collab] no_snapshot
    by blast
  have e1: "snd (state_run storing_collab subscribe [?a, ?b]) = []"
    by (simp add: state_step_def combineLatest_def subscribe_def storing_collab_def
        three_counters_def)
  have e2: "snd (state_run storing_collab subscribe [?p]) = []"
    by (simp add: state_step_def combineLatest_def subscribe_def)
  have e3: "snd (state_run storing_collab subscribe [?a, ?b, ?p])
      = [Next \<lparr>restrictedCounter1_derived = 1, restrictedCounter2_derived = 2,
               restrictedCounter3_derived = 4\<rparr>]"
    by (simp add: state_step_def combineLatest_def subscribe_def storing_collab_def
        three_counters_def derivedState_def)
  have sound: "\<forall>ev \<in> set [?a, ?b, ?p]. sound_event storing_collab ev"
    by (simp add: sound_event_def snapshot_arrival_def private_arrival_def storing_collab_def
        three_counters_def)
  have lp: "latest_private [?a, ?b, ?p] = Some ?ps" by simp
  have dec: "ledger storing_collab (data \<lparr>data = [2, 2, 4]\<rparr>) = Inr ?l"
    by (simp add: storing_collab_def three_counters_def)
  have "snd (state_run storing_collab subscribe ([?a, ?b, ?p] @ [ContractStateUpdate \<lparr>data = [2, 2, 4]\<rparr>]))
      = snd (state_run storing_collab subscribe [?a, ?b, ?p]) @ [Next (derivedState storing_collab ?l ?ps)]"
    using state_emits_combine_latest [where evs = "[?a, ?b, ?p]" and c = storing_collab
        and ps = ?ps and contractState = "\<lparr>data = [2, 2, 4]\<rparr>" and l = ?l] sound lp dec
    by blast
  then have e4: "snd (state_run storing_collab subscribe
        [?a, ?b, ?p, ContractStateUpdate \<lparr>data = [2, 2, 4]\<rparr>])
      = [Next \<lparr>restrictedCounter1_derived = 1, restrictedCounter2_derived = 2,
               restrictedCounter3_derived = 4\<rparr>,
         Next \<lparr>restrictedCounter1_derived = 2, restrictedCounter2_derived = 2,
               restrictedCounter3_derived = 4\<rparr>]"
    unfolding e3 by (simp add: derivedState_def)
  from e1 e2 e3 e4 g1 g2 show ?thesis by simp
qed

lemma state_step_replace_private:
  assumes "latestLedger sub' = latestLedger sub" "closed sub' = closed sub"
    "latestPrivate sub' = map_option (map_option (\<lambda>ps. ps')) (latestPrivate sub)"
  shows "snd (state_step c sub' (replace_private ps' ev)) = snd (state_step c sub ev)
    \<and> latestLedger (fst (state_step c sub' (replace_private ps' ev)))
        = latestLedger (fst (state_step c sub ev))
    \<and> closed (fst (state_step c sub' (replace_private ps' ev)))
        = closed (fst (state_step c sub ev))
    \<and> latestPrivate (fst (state_step c sub' (replace_private ps' ev)))
        = map_option (map_option (\<lambda>ps. ps')) (latestPrivate (fst (state_step c sub ev)))"
  using assms
  by (auto simp: state_step_def replace_private_def combineLatest_def derivedState_def
      split: source_event.splits option.splits sum.splits)

lemma state_run_replace_private:
  assumes "latestLedger sub' = latestLedger sub" "closed sub' = closed sub"
    "latestPrivate sub' = map_option (map_option (\<lambda>ps. ps')) (latestPrivate sub)"
  shows "snd (state_run c sub' (map (replace_private ps') evs)) = snd (state_run c sub evs)"
  using assms
proof (induction evs arbitrary: sub sub')
  case Nil
  then show ?case by simp
next
  case (Cons ev evs)
  note st = state_step_replace_private [OF Cons.prems, of c ev]
  obtain s1 o1 where a: "state_step c sub ev = (s1, o1)" by (cases "state_step c sub ev")
  obtain s2 o2 where b: "state_step c sub' (replace_private ps' ev) = (s2, o2)"
    by (cases "state_step c sub' (replace_private ps' ev)")
  from st a b have o: "o2 = o1" and r: "latestLedger s2 = latestLedger s1"
    "closed s2 = closed s1"
    "latestPrivate s2 = map_option (map_option (\<lambda>ps. ps')) (latestPrivate s1)"
    by simp_all
  from Cons.IH [OF r]
  have "snd (state_run c s2 (map (replace_private ps') evs)) = snd (state_run c s1 evs)" .
  then show ?case using a b o by (auto split: prod.splits)
qed

text \<open>
  C9. The projection of \<^verbatim>\<open>state$\<close> returns the three counters of the ledger snapshot
  and nothing else: two private states (and any two sets of pure circuits) paired with
  the same snapshot give the same derived state. Hence what a subscription to
  \<^verbatim>\<open>state$\<close> delivers does not depend on the private state read: with any other
  private state in its place, the same notifications are delivered.
\<close>

theorem derivedState_ignores_private_state:
  "derivedState c l ps1 = derivedState c' l ps2
   \<and> derivedState c l ps1 =
       \<lparr>restrictedCounter1_derived = restrictedCounter1 l,
        restrictedCounter2_derived = restrictedCounter2 l,
        restrictedCounter3_derived = restrictedCounter3 l\<rparr>
   \<and> snd (state_run c subscribe (map (replace_private ps') evs))
       = snd (state_run c subscribe evs)"
proof (intro conjI)
  show "derivedState c l ps1 = derivedState c' l ps2"
    by (simp add: derivedState_def)
  show "derivedState c l ps1 =
       \<lparr>restrictedCounter1_derived = restrictedCounter1 l,
        restrictedCounter2_derived = restrictedCounter2 l,
        restrictedCounter3_derived = restrictedCounter3 l\<rparr>"
    by (simp add: derivedState_def)
  show "snd (state_run c subscribe (map (replace_private ps') evs))
       = snd (state_run c subscribe evs)"
    by (rule state_run_replace_private) (simp_all add: subscribe_def)
qed

theorem derivedState_ignores_private_state_witness:
  "derivedState storing_collab
      \<lparr>authorizedCommitments = [], authorizedNullifiers = [], restrictedCounter1 = 3,
       restrictedCounter2 = 1, restrictedCounter3 = 4\<rparr> \<lparr>secretKey = [1, 2]\<rparr>
    = derivedState rejecting_collab
      \<lparr>authorizedCommitments = [], authorizedNullifiers = [], restrictedCounter1 = 3,
       restrictedCounter2 = 1, restrictedCounter3 = 4\<rparr> \<lparr>secretKey = [7]\<rparr>
   \<and> snd (state_run storing_collab subscribe
        [PrivateStateRead (Some \<lparr>secretKey = [7]\<rparr>), ContractStateUpdate \<lparr>data = [3, 1, 4]\<rparr>])
    = snd (state_run storing_collab subscribe
        [PrivateStateRead (Some \<lparr>secretKey = [1, 2]\<rparr>), ContractStateUpdate \<lparr>data = [3, 1, 4]\<rparr>])
   \<and> snd (state_run storing_collab subscribe
        [PrivateStateRead (Some \<lparr>secretKey = [1, 2]\<rparr>), ContractStateUpdate \<lparr>data = [3, 1, 4]\<rparr>])
    = [Next \<lparr>restrictedCounter1_derived = 3, restrictedCounter2_derived = 1,
              restrictedCounter3_derived = 4\<rparr>]"
proof -
  let ?l = "\<lparr>authorizedCommitments = [], authorizedNullifiers = [], restrictedCounter1 = 3,
       restrictedCounter2 = 1, restrictedCounter3 = 4\<rparr>"
  let ?evs = "[PrivateStateRead (Some \<lparr>secretKey = [1, 2]\<rparr>),
               ContractStateUpdate \<lparr>data = [3, 1, 4]\<rparr>]"
  note T = derivedState_ignores_private_state [where c = storing_collab
      and c' = rejecting_collab and l = ?l and ?ps1.0 = "\<lparr>secretKey = [1, 2]\<rparr>"
      and ?ps2.0 = "\<lparr>secretKey = [7]\<rparr>" and ps' = "\<lparr>secretKey = [7]\<rparr>" and evs = ?evs]
  have a: "derivedState storing_collab ?l \<lparr>secretKey = [1, 2]\<rparr>
      = derivedState rejecting_collab ?l \<lparr>secretKey = [7]\<rparr>"
    using T by blast
  have "snd (state_run storing_collab subscribe (map (replace_private \<lparr>secretKey = [7]\<rparr>) ?evs))
      = snd (state_run storing_collab subscribe ?evs)"
    using T by blast
  then have b: "snd (state_run storing_collab subscribe
        [PrivateStateRead (Some \<lparr>secretKey = [7]\<rparr>), ContractStateUpdate \<lparr>data = [3, 1, 4]\<rparr>])
      = snd (state_run storing_collab subscribe ?evs)"
    by (simp add: replace_private_def)
  have c: "snd (state_run storing_collab subscribe ?evs)
      = [Next \<lparr>restrictedCounter1_derived = 3, restrictedCounter2_derived = 1,
                restrictedCounter3_derived = 4\<rparr>]"
    by (simp add: state_step_def combineLatest_def subscribe_def storing_collab_def
        three_counters_def derivedState_def)
  from a b c show ?thesis by blast
qed

section \<open>Properties of the interactive loops\<close>

lemma deliver_unsubscribed: "\<not> subscribed s \<Longrightarrow> deliver d s = s"
  by (simp add: deliver_def)

lemma deliver_all_unsubscribed: "\<not> subscribed s \<Longrightarrow> deliver_all later s = s"
  by (induction later s rule: deliver_all.induct) (simp_all add: deliver_unsubscribed)

lemma question_unsubscribed:
  "\<not> subscribed s \<Longrightarrow> snd (snd (question inputs s)) = s"
  by (induction inputs s rule: question.induct) (simp_all add: deliver_unsubscribed)

lemma deployOrJoin_unsubscribed:
  "\<not> subscribed s \<Longrightarrow> snd (snd (snd (deployOrJoin deploy' join' inputs w s))) = s"
proof (induction deploy' join' inputs w s rule: deployOrJoin.induct)
  case (1 deploy' join' w s)
  then show ?case by simp
next
  case (2 deploy' join' d rest w s)
  then show ?case by (simp add: deliver_unsubscribed)
next
  case (3 deploy' join' choice rest w s)
  have q: "snd (snd (question rest s)) = s" using "3.prems" by (rule question_unsubscribed)
  show ?case
    using "3.IH" "3.prems" q
    by (auto split: prod.splits sum.splits option.splits)
qed

lemma mainLoop_while_never_returns:
  "fst (mainLoop_while c bboardApi inputs w s) \<noteq> Resolved u"
  by (induction c bboardApi inputs w s rule: mainLoop_while.induct)
    (auto simp: Let_def split: prod.splits sum.splits option.splits)

lemma mainLoop_while_invalid_choice:
  "choice \<notin> {''1'', ''2'', ''3'', ''4'', ''5'', ''6''} \<Longrightarrow>
   mainLoop_while c bboardApi (Answer choice # rest) w s =
   mainLoop_while c bboardApi rest (log_line (Err [Lit ''Invalid choice: '', Lit choice]) w) s"
  by simp

lemma mainLoop_extra_while_invalid_choice:
  "choice \<notin> {''1'', ''2'', ''3'', ''4'', ''5'', ''6''} \<Longrightarrow>
   mainLoop_extra_while x bboardApi (Answer choice # rest) w s =
   mainLoop_extra_while x bboardApi rest (log_line (Err [Lit ''Invalid choice: '', Lit choice]) w) s"
  by simp

lemma mainLoop_extra_while_exit:
  "mainLoop_extra_while x bboardApi (Answer ''6'' # rest) w s =
   (Resolved (), rest, log_line (Info [Lit ''Exiting...'']) w, s)"
  by simp


lemma state_run_closed: "closed sub \<Longrightarrow> state_run c sub evs = (sub, [])"
  by (induction evs) (simp_all add: state_step_def)

lemma mainLoop_ended_unsubscribed:
  assumes "mainLoop c inputs w = (r, rest, w', s)" "r \<noteq> Pending"
  shows "\<not> subscribed s"
proof -
  obtain r0 rest0 w0 s0 where d:
    "deployOrJoin (deploy c) (join c) inputs w (no_session :: BBoardDerivedState session)
       = (r0, rest0, w0, s0)"
    by (metis prod_cases4)
  have "snd (snd (snd (deployOrJoin (deploy c) (join c) inputs w
          (no_session :: BBoardDerivedState session)))) = no_session"
    by (rule deployOrJoin_unsubscribed) (simp add: no_session_def)
  with d have s0: "s0 = no_session" by simp
  show ?thesis
    using assms d s0
    by (auto simp: mainLoop_def no_session_def
        split: promise.splits option.splits prod.splits)
qed

lemma mainLoop_extra_ended_unsubscribed:
  assumes "mainLoop_extra x inputs w = (r, rest, w', s)" "r \<noteq> Pending"
  shows "\<not> subscribed s"
proof -
  obtain r0 rest0 w0 s0 where d:
    "deployOrJoin (deploy_extra x) (join_extra x) inputs w
       (no_session :: BBoardDerivedState_extra session) = (r0, rest0, w0, s0)"
    by (metis prod_cases4)
  have "snd (snd (snd (deployOrJoin (deploy_extra x) (join_extra x) inputs w
          (no_session :: BBoardDerivedState_extra session)))) = no_session"
    by (rule deployOrJoin_unsubscribed) (simp add: no_session_def)
  with d have s0: "s0 = no_session" by simp
  show ?thesis
    using assms d s0
    by (auto simp: mainLoop_extra_def no_session_def
        split: promise.splits option.splits prod.splits)
qed

text \<open>
  C7. Whenever \<^verbatim>\<open>mainLoop\<close> has ended, by a return or by a failure that escapes it,
  the subscription to \<^verbatim>\<open>state$\<close> is no longer active (before \<^verbatim>\<open>deployOrJoin\<close> has
  produced an API object there is none; afterwards the \<^verbatim>\<open>finally\<close> block has
  unsubscribed). From then on the emissions \<^verbatim>\<open>state$\<close> would still make change
  nothing: the observer has been handed exactly the states it had been handed when the
  loop ended, and \<open>currentState\<close> keeps its value. The same holds for the loop of the
  bulletin board CLI, which can also end by a return. Inside \<^verbatim>\<open>state$\<close>, an
  unsubscribed subscription turns no further source event into a notification.
\<close>

theorem mainLoop_unsubscribes:
  "(mainLoop c inputs w = (r, rest, w', s) \<and> r \<noteq> Pending \<longrightarrow>
      \<not> subscribed s
      \<and> (\<forall>later. deliver_all later s = s
            \<and> observed (deliver_all later s) = observed s
            \<and> currentState (deliver_all later s) = currentState s))
   \<and> (mainLoop_extra x inputs_x w_x = (r_x, rest_x, w_x', s_x) \<and> r_x \<noteq> Pending \<longrightarrow>
      \<not> subscribed s_x
      \<and> (\<forall>later. deliver_all later s_x = s_x
            \<and> observed (deliver_all later s_x) = observed s_x
            \<and> currentState (deliver_all later s_x) = currentState s_x))
   \<and> state_run c (unsubscribe sub) evs = (unsubscribe sub, [])"
proof (intro conjI impI allI)
  show "state_run c (unsubscribe sub) evs = (unsubscribe sub, [])"
    by (rule state_run_closed) (simp add: unsubscribe_def)
next
  assume a: "mainLoop c inputs w = (r, rest, w', s) \<and> r \<noteq> Pending"
  then show u: "\<not> subscribed s" using mainLoop_ended_unsubscribed by blast
  fix later
  show "deliver_all later s = s" using u by (rule deliver_all_unsubscribed)
  then show "observed (deliver_all later s) = observed s"
    "currentState (deliver_all later s) = currentState s" by simp_all
next
  assume a: "mainLoop_extra x inputs_x w_x = (r_x, rest_x, w_x', s_x) \<and> r_x \<noteq> Pending"
  then show u: "\<not> subscribed s_x" using mainLoop_extra_ended_unsubscribed by blast
  fix later
  show "deliver_all later s_x = s_x" using u by (rule deliver_all_unsubscribed)
  then show "observed (deliver_all later s_x) = observed s_x"
    "currentState (deliver_all later s_x) = currentState s_x" by simp_all
qed

theorem mainLoop_unsubscribes_witness:
  "fst (mainLoop calls_rejected
          [Answer ''1'',
           Emission \<lparr>restrictedCounter1_derived = 1, restrictedCounter2_derived = 0,
                     restrictedCounter3_derived = 0\<rparr>,
           Answer ''9'', Answer ''2'',
           Emission \<lparr>restrictedCounter1_derived = 2, restrictedCounter2_derived = 0,
                     restrictedCounter3_derived = 0\<rparr>] empty_world) = Rejected CallRejected
   \<and> observed (deliver_all
          [Emission \<lparr>restrictedCounter1_derived = 2, restrictedCounter2_derived = 0,
                     restrictedCounter3_derived = 0\<rparr>]
          (snd (snd (snd (mainLoop calls_rejected
          [Answer ''1'',
           Emission \<lparr>restrictedCounter1_derived = 1, restrictedCounter2_derived = 0,
                     restrictedCounter3_derived = 0\<rparr>,
           Answer ''9'', Answer ''2'',
           Emission \<lparr>restrictedCounter1_derived = 2, restrictedCounter2_derived = 0,
                     restrictedCounter3_derived = 0\<rparr>] empty_world)))))
       = [\<lparr>restrictedCounter1_derived = 1, restrictedCounter2_derived = 0,
            restrictedCounter3_derived = 0\<rparr>]
   \<and> fst (mainLoop_extra board_collab
          [Answer ''1'',
           Emission \<lparr>state_derived = vacant, message_derived = None, instance_derived = 1,
                     isOwner = False\<rparr>,
           Answer ''6'',
           Emission \<lparr>state_derived = occupied, message_derived = Some ''hi'',
                     instance_derived = 1, isOwner = False\<rparr>] empty_world) = Resolved ()
   \<and> observed (deliver_all
          [Emission \<lparr>state_derived = occupied, message_derived = Some ''hi'',
                     instance_derived = 1, isOwner = False\<rparr>]
          (snd (snd (snd (mainLoop_extra board_collab
          [Answer ''1'',
           Emission \<lparr>state_derived = vacant, message_derived = None, instance_derived = 1,
                     isOwner = False\<rparr>,
           Answer ''6'',
           Emission \<lparr>state_derived = occupied, message_derived = Some ''hi'',
                     instance_derived = 1, isOwner = False\<rparr>] empty_world)))))
       = [\<lparr>state_derived = vacant, message_derived = None, instance_derived = 1,
            isOwner = False\<rparr>]"
proof -
  let ?da = "\<lparr>restrictedCounter1_derived = 1, restrictedCounter2_derived = 0,
              restrictedCounter3_derived = 0\<rparr>"
  let ?db = "\<lparr>restrictedCounter1_derived = 2, restrictedCounter2_derived = 0,
              restrictedCounter3_derived = 0\<rparr>"
  let ?m = "mainLoop calls_rejected
      [Answer ''1'', Emission ?da, Answer ''9'', Answer ''2'', Emission ?db] empty_world"
  let ?ea = "\<lparr>state_derived = vacant, message_derived = None, instance_derived = 1,
              isOwner = False\<rparr>"
  let ?eb = "\<lparr>state_derived = occupied, message_derived = Some ''hi'', instance_derived = 1,
              isOwner = False\<rparr>"
  let ?x = "mainLoop_extra board_collab
      [Answer ''1'', Emission ?ea, Answer ''6'', Emission ?eb] empty_world"
  have m: "fst ?m = Rejected CallRejected
      \<and> snd (snd (snd ?m)) = \<lparr>currentState = Some ?da, subscribed = False, observed = [?da]\<rparr>"
    by (simp add: mainLoop_def deploy_def getPrivateState_def randomBytes_def
        calls_rejected_def storing_collab_def empty_world_def log_line_def
        createBBoardPrivateState_def new_BBoardAPI_def no_session_def deliver_def
        stateObserver_next_def increment1_def)
  have x: "fst ?x = Resolved ()
      \<and> snd (snd (snd ?x)) = \<lparr>currentState = Some ?ea, subscribed = False, observed = [?ea]\<rparr>"
    by (simp add: mainLoop_extra_def board_collab_def empty_world_def log_line_def
        new_BBoardAPI_def no_session_def deliver_def stateObserver_next_def)
  note T = mainLoop_unsubscribes [where c = calls_rejected
      and inputs = "[Answer ''1'', Emission ?da, Answer ''9'', Answer ''2'', Emission ?db]"
      and w = empty_world and r = "fst ?m" and rest = "fst (snd ?m)"
      and w' = "fst (snd (snd ?m))" and s = "snd (snd (snd ?m))"
      and x = board_collab
      and inputs_x = "[Answer ''1'', Emission ?ea, Answer ''6'', Emission ?eb]"
      and w_x = empty_world and r_x = "fst ?x" and rest_x = "fst (snd ?x)"
      and w_x' = "fst (snd (snd ?x))" and s_x = "snd (snd (snd ?x))"]
  have "fst ?m \<noteq> Pending" using m by simp
  then have "observed (deliver_all [Emission ?db] (snd (snd (snd ?m)))) = observed (snd (snd (snd ?m)))"
    using T by simp
  then have a: "observed (deliver_all [Emission ?db] (snd (snd (snd ?m)))) = [?da]"
    using m by simp
  have "fst ?x \<noteq> Pending" using x by simp
  then have "observed (deliver_all [Emission ?eb] (snd (snd (snd ?x)))) = observed (snd (snd (snd ?x)))"
    using T by simp
  then have b: "observed (deliver_all [Emission ?eb] (snd (snd (snd ?x)))) = [?ea]"
    using x by simp
  from m x a b show ?thesis by blast
qed

text \<open>
  C5 does not hold for \<^verbatim>\<open>examples/bboard/bboard-cli\<close>: its menu displays "8. Exit",
  but the \<^verbatim>\<open>switch\<close> of \<^verbatim>\<open>mainLoop\<close> has no case '8'. After a deployment, the answer
  '8' is logged as an invalid choice and the loop prompts again, still subscribed; the
  loop never returns, whatever the input. The loop of \<^verbatim>\<open>examples/extra/bboard-cli\<close>
  returns on its Exit option '6'. (Both loops report every unlisted input as invalid and
  prompt again: \<open>mainLoop_while_invalid_choice\<close>, \<open>mainLoop_extra_while_invalid_choice\<close>.)
\<close>

theorem mainLoop_exit_option_not_handled:
  "fst (mainLoop storing_collab [Answer ''1'', Answer ''8''] empty_world) = Pending
   \<and> logger (fst (snd (snd (mainLoop storing_collab [Answer ''1'', Answer ''8''] empty_world))))
       = [Info [Lit ''deployContract''],
          Trace [Lit ''contractDeployed'', Lit ''c0ffee''],
          Info [Lit ''Deployed contract at address: '', Lit ''c0ffee''],
          Err [Lit ''Invalid choice: '', Lit ''8'']]
   \<and> subscribed (snd (snd (snd (mainLoop storing_collab [Answer ''1'', Answer ''8''] empty_world))))
   \<and> (\<forall>c bboardApi inputs w s u. fst (mainLoop_while c bboardApi inputs w s) \<noteq> Resolved u)
   \<and> fst (mainLoop_extra board_collab [Answer ''1'', Answer ''6''] empty_world) = Resolved ()"
proof -
  have "fst (mainLoop storing_collab [Answer ''1'', Answer ''8''] empty_world) = Pending
   \<and> logger (fst (snd (snd (mainLoop storing_collab [Answer ''1'', Answer ''8''] empty_world))))
       = [Info [Lit ''deployContract''],
          Trace [Lit ''contractDeployed'', Lit ''c0ffee''],
          Info [Lit ''Deployed contract at address: '', Lit ''c0ffee''],
          Err [Lit ''Invalid choice: '', Lit ''8'']]
   \<and> subscribed (snd (snd (snd (mainLoop storing_collab [Answer ''1'', Answer ''8''] empty_world))))"
    by (simp add: mainLoop_def deploy_def getPrivateState_def randomBytes_def
        storing_collab_def empty_world_def log_line_def createBBoardPrivateState_def
        new_BBoardAPI_def no_session_def)
  moreover have "fst (mainLoop_extra board_collab [Answer ''1'', Answer ''6''] empty_world)
      = Resolved ()"
    by (simp add: mainLoop_extra_def board_collab_def empty_world_def log_line_def
        new_BBoardAPI_def no_session_def)
  ultimately show ?thesis using mainLoop_while_never_returns by blast
qed

section \<open>Properties of the shutdown\<close>

lemma acquired_append: "acquired (xs @ ys) = acquired xs @ acquired ys"
  by (induction xs rule: acquired.induct) simp_all

lemma released_append: "released (xs @ ys) = released xs @ released ys"
  by (induction xs rule: released.induct) simp_all

lemma teardown_released:
  "released (fst (teardown rel wallet env w)) =
     InputInterface # (case wallet of None \<Rightarrow> [] | Some wallet' \<Rightarrow> [WalletHandle])
       @ (if env then [Environment] else [])"
  by (simp add: teardown_def released_append split: option.splits)

lemma teardown_acquired: "acquired (fst (teardown rel wallet env w)) = []"
  by (simp add: teardown_def acquired_append split: option.splits)

lemma run_finally_events:
  "run_finally rel wallet env rethrown events w = (res, tr, w') \<Longrightarrow>
   tr = events @ fst (teardown rel wallet env w)"
  by (auto simp: run_finally_def split: prod.splits)

lemma run_from_wallet_order:
  assumes "run_from_wallet c buildFromSeed nt rel env standalone events inputs w = (res, tr, w')"
    and "released events = []"
  shows "(released tr = [] \<and> res \<noteq> Returned \<and> (\<forall>n. res \<noteq> Exited n)
          \<and> (acquired tr = acquired events \<or> acquired tr = acquired events @ [WalletHandle]))
    \<or> (released tr = InputInterface # (if env then [Environment] else [])
          \<and> acquired tr = acquired events)
    \<or> (released tr = InputInterface # WalletHandle # (if env then [Environment] else [])
          \<and> acquired tr = acquired events @ [WalletHandle])"
proof -
  obtain p rest w1 s where b:
    "buildWallet buildFromSeed nt standalone inputs w (no_session :: BBoardDerivedState session)
       = (p, rest, w1, s)"
    by (metis prod_cases4)
  show ?thesis
  proof (cases p)
    case Pending
    with assms b show ?thesis by (auto simp: run_from_wallet_def)
  next
    case (Rejected e)
    with assms b show ?thesis by (auto simp: run_from_wallet_def)
  next
    case (Resolved wallet)
    show ?thesis
    proof (cases wallet)
      case None
      with assms b Resolved show ?thesis
        by (auto simp: run_from_wallet_def released_append acquired_append
            teardown_released teardown_acquired dest!: run_finally_events)
    next
      case (Some wl)
      obtain r rest' w2 s' where m: "mainLoop c rest w1 = (r, rest', w2, s')"
        by (metis prod_cases4)
      from assms b Resolved Some m show ?thesis
        by (auto simp: run_from_wallet_def Let_def released_append acquired_append
            teardown_released teardown_acquired
            split: promise.splits if_splits dest!: run_finally_events)
    qed
  qed
qed

lemma run_order:
  assumes "run c buildFromSeed nt rel dockerEnv standalone inputs w = (res, tr, w')"
  shows "acquired tr = InputInterface # filter (\<lambda>r. r \<in> set (acquired tr)) [Environment, WalletHandle]
    \<and> (released tr = [] \<and> res \<noteq> Returned \<and> (\<forall>n. res \<noteq> Exited n)
        \<or> released tr = InputInterface # filter (\<lambda>r. r \<in> set (acquired tr)) [WalletHandle, Environment])"
proof (cases dockerEnv)
  case None
  with assms have "run_from_wallet c buildFromSeed nt rel False standalone
            [Acquire InputInterface] inputs w = (res, tr, w')"
    by (simp add: run_def)
  from run_from_wallet_order [OF this] show ?thesis by auto
next
  case (Some d)
  show ?thesis
  proof (cases "up d = None \<and> (if standalone then mapContainerPort d else None) = None")
    case True
    with assms Some have "run_from_wallet c buildFromSeed nt rel True standalone
            [Acquire InputInterface, Acquire Environment] inputs w = (res, tr, w')"
      by (auto simp: run_def split: if_splits)
    from run_from_wallet_order [OF this] show ?thesis by auto
  next
    case False
    with assms Some show ?thesis
      by (auto simp: run_def split: option.splits if_splits)
  qed
qed

text \<open>
  C8, as stated, fails: the shutdown does not release in reverse order of acquisition.
  \<^verbatim>\<open>run\<close> acquires the input interface, then the Docker environment, then the wallet;
  in a standalone run in which the user exits at the first menu, all three are held and
  the \<^verbatim>\<open>finally\<close> block releases the input interface, then the wallet, then the
  environment. The reverse of the acquisition order would release the wallet first and
  the input interface last.
\<close>

theorem shutdown_not_reverse_acquisition_counterexample:
  "fst (snd (run storing_collab (\<lambda>seed. Inr funded_wallet) ''tok'' all_released
          (Some \<lparr>up = None, mapContainerPort = None\<rparr>) True [Answer ''3''] empty_world))
     = [Acquire InputInterface, Acquire Environment, Acquire WalletHandle,
        Release InputInterface None, RemoveAllListeners None,
        Release WalletHandle None, Release Environment None, ProcessExit 0]
   \<and> released (fst (snd (run storing_collab (\<lambda>seed. Inr funded_wallet) ''tok'' all_released
          (Some \<lparr>up = None, mapContainerPort = None\<rparr>) True [Answer ''3''] empty_world)))
     = [InputInterface, WalletHandle, Environment]
   \<and> rev (acquired (fst (snd (run storing_collab (\<lambda>seed. Inr funded_wallet) ''tok''
          all_released (Some \<lparr>up = None, mapContainerPort = None\<rparr>) True [Answer ''3'']
          empty_world))))
     = [WalletHandle, Environment, InputInterface]
   \<and> released (fst (snd (run storing_collab (\<lambda>seed. Inr funded_wallet) ''tok'' all_released
          (Some \<lparr>up = None, mapContainerPort = None\<rparr>) True [Answer ''3''] empty_world)))
     \<noteq> rev (acquired (fst (snd (run storing_collab (\<lambda>seed. Inr funded_wallet) ''tok''
          all_released (Some \<lparr>up = None, mapContainerPort = None\<rparr>) True [Answer ''3'']
          empty_world))))"
proof -
  have "fst (snd (run storing_collab (\<lambda>seed. Inr funded_wallet) ''tok'' all_released
          (Some \<lparr>up = None, mapContainerPort = None\<rparr>) True [Answer ''3''] empty_world))
     = [Acquire InputInterface, Acquire Environment, Acquire WalletHandle,
        Release InputInterface None, RemoveAllListeners None,
        Release WalletHandle None, Release Environment None, ProcessExit 0]"
    by (simp add: run_def run_from_wallet_def buildWallet_def build_and_log_def
        buildWalletAndWaitForFunds_def firstValueFrom_def values_of_def funded_wallet_def
        mainLoop_def
        run_finally_def teardown_def all_released_def empty_world_def log_line_def
        no_session_def)
  then show ?thesis by simp
qed

text \<open>
  C8, amended. The shutdown of \<^verbatim>\<open>run\<close> calls the releases in the fixed order input
  interface, wallet (if one was built), environment (if one was started), whichever of
  these calls fail: a failure is swallowed and the later releases are still called. No
  failure of a release escapes \<^verbatim>\<open>run\<close>: after the shutdown the process exits (when the
  environment went down), or \<^verbatim>\<open>run\<close> rethrows what its \<^verbatim>\<open>catch\<close> had rethrown, or
  returns. The acquisition order is input interface, environment, wallet, and whenever
  \<^verbatim>\<open>run\<close> returns or exits, every acquired resource has had its release called, in the
  order above.
\<close>

theorem shutdown_releases_in_fixed_order:
  "released (fst (teardown rel wallet env w)) =
     InputInterface # (case wallet of None \<Rightarrow> [] | Some wallet' \<Rightarrow> [WalletHandle])
       @ (if env then [Environment] else [])
   \<and> (run c buildFromSeed nt rel dockerEnv standalone inputs w = (res, tr, w') \<longrightarrow>
        acquired tr =
          InputInterface # filter (\<lambda>r. r \<in> set (acquired tr)) [Environment, WalletHandle]
        \<and> (res = Returned \<or> (\<exists>n. res = Exited n) \<longrightarrow>
             released tr =
               InputInterface # filter (\<lambda>r. r \<in> set (acquired tr)) [WalletHandle, Environment])
        \<and> (released tr = [] \<or>
             released tr =
               InputInterface # filter (\<lambda>r. r \<in> set (acquired tr)) [WalletHandle, Environment]))
   \<and> fst (run_finally rel wallet env rethrown events w) =
       (if env \<and> env_down rel = None then Exited 0
        else case rethrown of None \<Rightarrow> Returned | Some e \<Rightarrow> Threw e)"
proof (intro conjI impI)
  show "fst (run_finally rel wallet env rethrown events w) =
       (if env \<and> env_down rel = None then Exited 0
        else case rethrown of None \<Rightarrow> Returned | Some e \<Rightarrow> Threw e)"
    by (auto simp: run_finally_def teardown_def split: option.splits)
next
  show "released (fst (teardown rel wallet env w)) =
     InputInterface # (case wallet of None \<Rightarrow> [] | Some wallet' \<Rightarrow> [WalletHandle])
       @ (if env then [Environment] else [])"
    by (rule teardown_released)
next
  assume r: "run c buildFromSeed nt rel dockerEnv standalone inputs w = (res, tr, w')"
  note o = run_order [OF r]
  show "acquired tr =
      InputInterface # filter (\<lambda>r. r \<in> set (acquired tr)) [Environment, WalletHandle]"
    using o by blast
  show "released tr = [] \<or> released tr =
      InputInterface # filter (\<lambda>r. r \<in> set (acquired tr)) [WalletHandle, Environment]"
    using o by blast
  assume "res = Returned \<or> (\<exists>n. res = Exited n)"
  then show "released tr =
      InputInterface # filter (\<lambda>r. r \<in> set (acquired tr)) [WalletHandle, Environment]"
    using o by blast
qed

theorem shutdown_releases_in_fixed_order_witness:
  "fst (run calls_rejected (\<lambda>seed. Inr funded_wallet) ''tok''
          \<lparr>rli_close = Some TypeError, rli_removeAllListeners = None,
           wallet_close = Some (Thrown ''boom''), env_down = Some NotFound\<rparr>
          (Some \<lparr>up = None, mapContainerPort = None\<rparr>) False
          [Answer ''2'', Answer ''5eed'', Answer ''1'', Answer ''2''] empty_world) = Returned
   \<and> fst (snd (run calls_rejected (\<lambda>seed. Inr funded_wallet) ''tok''
          \<lparr>rli_close = Some TypeError, rli_removeAllListeners = None,
           wallet_close = Some (Thrown ''boom''), env_down = Some NotFound\<rparr>
          (Some \<lparr>up = None, mapContainerPort = None\<rparr>) False
          [Answer ''2'', Answer ''5eed'', Answer ''1'', Answer ''2''] empty_world))
     = [Acquire InputInterface, Acquire Environment, Acquire WalletHandle,
        Release InputInterface (Some TypeError),
        Release WalletHandle (Some (Thrown ''boom'')),
        Release Environment (Some NotFound)]
   \<and> released (fst (snd (run calls_rejected (\<lambda>seed. Inr funded_wallet) ''tok''
          \<lparr>rli_close = Some TypeError, rli_removeAllListeners = None,
           wallet_close = Some (Thrown ''boom''), env_down = Some NotFound\<rparr>
          (Some \<lparr>up = None, mapContainerPort = None\<rparr>) False
          [Answer ''2'', Answer ''5eed'', Answer ''1'', Answer ''2''] empty_world)))
     = [InputInterface, WalletHandle, Environment]"
proof -
  let ?rel = "\<lparr>rli_close = Some TypeError, rli_removeAllListeners = None,
           wallet_close = Some (Thrown ''boom''), env_down = Some NotFound\<rparr>"
  let ?run = "run calls_rejected (\<lambda>seed. Inr funded_wallet) ''tok'' ?rel
          (Some \<lparr>up = None, mapContainerPort = None\<rparr>) False
          [Answer ''2'', Answer ''5eed'', Answer ''1'', Answer ''2''] empty_world"
  have ev: "fst ?run = Returned \<and> fst (snd ?run)
     = [Acquire InputInterface, Acquire Environment, Acquire WalletHandle,
        Release InputInterface (Some TypeError),
        Release WalletHandle (Some (Thrown ''boom'')),
        Release Environment (Some NotFound)]"
    by (simp add: run_def run_from_wallet_def buildWallet_def build_and_log_def
        buildWalletAndWaitForFunds_def firstValueFrom_def values_of_def funded_wallet_def
        mainLoop_def
        run_finally_def teardown_def empty_world_def log_line_def no_session_def
        deploy_def getPrivateState_def randomBytes_def calls_rejected_def storing_collab_def
        createBBoardPrivateState_def new_BBoardAPI_def increment1_def instanceof_Error_def)
  note T = shutdown_releases_in_fixed_order [where c = calls_rejected
      and buildFromSeed = "\<lambda>seed. Inr funded_wallet" and nt = "''tok''" and rel = ?rel
      and dockerEnv = "Some \<lparr>up = None, mapContainerPort = None\<rparr>" and standalone = False
      and inputs = "[Answer ''2'', Answer ''5eed'', Answer ''1'', Answer ''2'']"
      and w = empty_world and res = "fst ?run" and tr = "fst (snd ?run)"
      and w' = "snd (snd ?run)"]
  have "released (fst (snd ?run)) =
      InputInterface # filter (\<lambda>r. r \<in> set (acquired (fst (snd ?run)))) [WalletHandle, Environment]"
    using T ev by simp
  then have "released (fst (snd ?run)) = [InputInterface, WalletHandle, Environment]"
    using ev by simp
  with ev show ?thesis by blast
qed

end
